theory Spec2Isabelle
  imports Main
begin

section \<open>The outside world\<close>

text \<open>
  The scripts talk to the operating system through three library calls:
  \<^verbatim>\<open>subprocess.run\<close>, \<^verbatim>\<open>urllib.request.urlopen\<close> and \<^verbatim>\<open>os.path.exists\<close>, plus
  \<^verbatim>\<open>time.sleep\<close> and printing. Everything they do is recorded, in order, in a trace
  of events; what the outside world answers is an oracle that may depend on the whole
  trace so far, so the same command can fail first and succeed later.

  Of the output, the trace keeps the \<^verbatim>\<open>print_info\<close>, \<^verbatim>\<open>print_success\<close>,
  \<^verbatim>\<open>print_warning\<close> and \<^verbatim>\<open>print_error\<close> messages with their static text (the text
  of a caught exception that some of them append is dropped), the banner, the usage
  text, the dots of the waiting loop and the log output; the other plain
  \<^verbatim>\<open>print\<close> calls (rulers, blank lines, the system information) are left out.
  Signals are not part of the trace: the handler \<^verbatim>\<open>signal_handler\<close> is modelled as
  the function it is, and \<^verbatim>\<open>KeyboardInterrupt\<close> only as a way a setup step can end.
\<close>

datatype level = Info | Success | Warning | Error | Plain

datatype event =
    Proc "string list"
  | Http string
  | Sleep nat
  | Msg level string

text \<open>
  \<^verbatim>\<open>subprocess.run(cmd)\<close> either starts the program, which exits with a code and
  some standard output, or raises \<^verbatim>\<open>FileNotFoundError\<close> because the binary is not
  on the machine. No call in the scripts passes a timeout.
\<close>

datatype proc_outcome = Exited int string | Binary_missing

text \<open>
  \<^verbatim>\<open>urlopen(url, timeout=t)\<close> either returns a response object whose
  \<^verbatim>\<open>getcode()\<close> is the status, or raises \<^verbatim>\<open>URLError\<close> (connection refused,
  timeout, and its subclass \<^verbatim>\<open>HTTPError\<close>), or raises some other \<^verbatim>\<open>Exception\<close>.
\<close>

datatype http_outcome = Responded int | URLError | Other_exception

record world =
  platform_system :: string
  run_proc :: "event list \<Rightarrow> string list \<Rightarrow> proc_outcome"
  urlopen :: "event list \<Rightarrow> string \<Rightarrow> http_outcome"
  path_exists :: "string \<Rightarrow> bool"
  json_services :: "string \<Rightarrow> (string \<times> string \<times> string) option list option"

text \<open>
  The exceptions that travel through the modelled functions. An action returns either an
  exception or a value, together with the trace as it has grown.
\<close>

datatype exn =
    FileNotFoundError
  | CalledProcessError int
  | SystemExit int
  | KeyError string
  | AttributeError

type_synonym 'a io = "event list \<Rightarrow> (exn + 'a) \<times> event list"

section \<open>test\_mac\_deployment.py: the service connectivity test\<close>

text \<open>
  \<^verbatim>\<open>MacDeploymentTester.test_service_connectivity\<close>: the three URLs are probed in the
  order of the dictionary literal; a response counts only when \<^verbatim>\<open>getcode() == 200\<close>;
  both \<^verbatim>\<open>except\<close> clauses print a warning and go on.
\<close>

definition connectivity_services :: "(string \<times> string) list" where
  "connectivity_services =
     [(''Frontend'', ''http://localhost:3000''),
      (''Backend Health'', ''http://localhost:8000/health''),
      (''Backend API'', ''http://localhost:8000/api'')]"

definition probe_connectivity :: "world \<Rightarrow> string \<times> string \<Rightarrow> nat \<times> event list \<Rightarrow> nat \<times> event list" where
  "probe_connectivity W = (\<lambda>(service, url) (accessible_services, tr).
     (case urlopen W tr url of
        Responded code \<Rightarrow>
          (if code = 200
           then (accessible_services + 1, tr @ [Http url, Msg Success (service @ '' is accessible'')])
           else (accessible_services, tr @ [Http url, Msg Warning (service @ '' returned status'')]))
      | URLError \<Rightarrow> (accessible_services, tr @ [Http url, Msg Warning (service @ '' is not accessible'')])
      | Other_exception \<Rightarrow> (accessible_services, tr @ [Http url, Msg Warning (service @ '' test failed'')])))"

definition test_service_connectivity :: "world \<Rightarrow> event list \<Rightarrow> bool \<times> event list" where
  "test_service_connectivity W tr =
     (let (accessible_services, tr') = foldl (\<lambda>acc s. probe_connectivity W s acc) (0, tr) connectivity_services
      in (0 < accessible_services, tr'))"

section \<open>setup\_mac.py: the step orchestrator\<close>

text \<open>
  \<^verbatim>\<open>MacSunaSetup.run_mac_setup\<close> is a straight line of fifteen guarded blocks.
  Each block has one of two shapes:
  \<^verbatim>\<open>
      if self.current_step <= i:            if self.current_step <= i:
          self.step_i()                         if not self.step_i():
          self.save_progress(i)                     print_error(...); return False
                                                self.save_progress(i)
  \<close>
  The right-hand shape (the return value is checked) is used for steps 2, 14 and 15
  only; the other blocks ignore what the executor returns. The whole line stands in a
  \<^verbatim>\<open>try\<close> whose handlers catch \<^verbatim>\<open>KeyboardInterrupt\<close> and \<^verbatim>\<open>Exception\<close>, print a
  message and return \<^verbatim>\<open>False\<close>.

  What a step executor does inside (prompts, subprocesses, file writes) is not needed
  here: only how it comes back matters to the orchestrator. It returns a value, or
  \<^verbatim>\<open>KeyboardInterrupt\<close> leaves it (\<open>Interrupted\<close>), or another exception leaves it
  (\<open>Raised\<close>). An interrupt that arrives inside one of the bare \<^verbatim>\<open>except:\<close> blocks
  of an executor (\<^verbatim>\<open>get_macos_version\<close>, \<^verbatim>\<open>check_system_memory\<close>,
  \<^verbatim>\<open>check_disk_space\<close>, \<^verbatim>\<open>check_service_health\<close>) is caught there and does not
  leave the executor: for the orchestrator that executor ends in one of the other ways.
\<close>

datatype step_outcome = Returned bool | Interrupted | Raised

datatype halt = Step_failed | Caught_KeyboardInterrupt | Caught_Exception

text \<open>
  The wizard object: the field \<^verbatim>\<open>current_step\<close>, the progress file on disk (the
  \<^verbatim>\<open>current_step\<close> it holds, or \<open>None\<close> when there is no file), the list of steps
  whose executor has been invoked so far, and what \<^verbatim>\<open>run_mac_setup\<close> itself has done
  to the outside world (the events of its own statements, not those of the executors).
\<close>

record wizard =
  current_step :: int
  progress_file :: "int option"
  executed :: "int list"
  printed :: "event list"

text \<open>
  The three methods \<^verbatim>\<open>load_progress\<close>, \<^verbatim>\<open>save_progress\<close> and
  \<^verbatim>\<open>cleanup_progress\<close> that \<^verbatim>\<open>run_mac_setup\<close> calls are inherited from the base
  class \<^verbatim>\<open>SetupWizard\<close> of \<^verbatim>\<open>setup.py\<close>; that file is not part of the sources at
  hand, so the three are written from the specification's data model. The bag of
  collected values and the timestamp of the persisted record play no part in the
  control flow and are left out.
\<close>

text \<open>
  Modelled from the spec: \<^verbatim>\<open>SetupWizard.load_progress\<close> (in \<^verbatim>\<open>setup.py\<close>, missing).
  "On start, it attempts to load a previously persisted Progress; if found, execution
  resumes at \<^verbatim>\<open>progress.current_step\<close>": the field takes the persisted value. Without
  a file the field keeps the value the constructor gave it.
\<close>

definition load_progress :: "wizard \<Rightarrow> wizard" where
  "load_progress s = (case progress_file s of None \<Rightarrow> s | Some k \<Rightarrow> s\<lparr>current_step := k\<rparr>)"

text \<open>
  Modelled from the spec: \<^verbatim>\<open>SetupWizard.save_progress\<close> (in \<^verbatim>\<open>setup.py\<close>, missing).
  "On success, merge any new category data into the bag, then atomically persist the
  new Progress (\<^verbatim>\<open>current_step = i+1\<close>) before proceeding", where \<^verbatim>\<open>current_step\<close> is
  "the next step to execute, not the last completed one". The call that follows step
  \<open>i\<close> in \<^verbatim>\<open>run_mac_setup\<close> is \<^verbatim>\<open>self.save_progress(i)\<close>, so the record written by
  \<^verbatim>\<open>save_progress(n)\<close> holds \<open>n + 1\<close>. Whether the method also assigns the field
  \<^verbatim>\<open>self.current_step\<close> is not said, so both possibilities are modelled: \<open>sync\<close> says
  whether it does.
\<close>

definition save_progress :: "bool \<Rightarrow> int \<Rightarrow> wizard \<Rightarrow> wizard" where
  "save_progress sync n s =
     s\<lparr>progress_file := Some (n + 1), current_step := (if sync then n + 1 else current_step s)\<rparr>"

text \<open>
  Modelled from the spec: \<^verbatim>\<open>SetupWizard.cleanup_progress\<close> (in \<^verbatim>\<open>setup.py\<close>,
  missing). "On reaching step N+1 successfully, Progress is deleted."
\<close>

definition cleanup_progress :: "wizard \<Rightarrow> wizard" where
  "cleanup_progress s = s\<lparr>progress_file := None\<rparr>"

text \<open>One guarded block; \<open>checked\<close> tells which of the two shapes it has.\<close>

definition run_block :: "(int \<Rightarrow> step_outcome) \<Rightarrow> bool \<Rightarrow> int \<times> bool \<Rightarrow> wizard \<Rightarrow> halt option \<times> wizard" where
  "run_block exec sync = (\<lambda>(i, checked) s.
     if current_step s \<le> i then
       (let s' = s\<lparr>executed := executed s @ [i]\<rparr> in
        case exec i of
          Interrupted \<Rightarrow> (Some Caught_KeyboardInterrupt, s')
        | Raised \<Rightarrow> (Some Caught_Exception, s')
        | Returned r \<Rightarrow>
            if checked \<and> \<not> r then (Some Step_failed, s')
            else (None, save_progress sync i s'))
     else (None, s))"

fun run_blocks :: "(int \<Rightarrow> step_outcome) \<Rightarrow> bool \<Rightarrow> (int \<times> bool) list \<Rightarrow> wizard \<Rightarrow> halt option \<times> wizard" where
  "run_blocks exec sync [] s = (None, s)"
| "run_blocks exec sync (b # bs) s =
     (case run_block exec sync b s of
        (Some h, s') \<Rightarrow> (Some h, s')
      | (None, s') \<Rightarrow> run_blocks exec sync bs s')"

text \<open>
  The fifteen blocks in source order, with the flag of the checked ones: 1
  \<^verbatim>\<open>check_mac_prerequisites\<close>, 2 \<^verbatim>\<open>check_docker_status\<close>, 3 to 11 the
  \<^verbatim>\<open>collect_*\<close> steps, 12 \<^verbatim>\<open>configure_mac_env_files\<close> followed by
  \<^verbatim>\<open>create_mac_docker_compose\<close>, 13 \<^verbatim>\<open>setup_supabase_database\<close>, 14
  \<^verbatim>\<open>install_mac_dependencies\<close>, 15 \<^verbatim>\<open>start_mac_services\<close>.
\<close>

definition mac_steps :: "(int \<times> bool) list" where
  "mac_steps =
     [(1, False), (2, True), (3, False), (4, False), (5, False), (6, False), (7, False),
      (8, False), (9, False), (10, False), (11, False), (12, False), (13, False),
      (14, True), (15, True)]"

text \<open>
  What \<^verbatim>\<open>run_mac_setup\<close> itself does when a run stops. A checked block that failed
  prints its error before \<^verbatim>\<open>return False\<close> (the block is the one invoked last); the
  handler of \<^verbatim>\<open>KeyboardInterrupt\<close> prints two lines and returns \<^verbatim>\<open>False\<close>; the handler
  of \<^verbatim>\<open>Exception\<close> prints one error and returns \<^verbatim>\<open>False\<close>. None of them starts a
  subprocess.
\<close>

definition halt_output :: "halt \<Rightarrow> int \<Rightarrow> event list" where
  "halt_output h i =
     (case h of
        Step_failed \<Rightarrow>
          [Msg Error (if i = 2 then ''Docker setup failed. Please fix Docker issues and try again.''
                      else if i = 14 then ''Dependency installation failed''
                      else ''Service startup failed'')]
      | Caught_KeyboardInterrupt \<Rightarrow>
          [Msg Plain ''Setup interrupted. Progress has been saved.'',
           Msg Plain ''Run python setup_mac.py again to continue from where you left off.'']
      | Caught_Exception \<Rightarrow> [Msg Error ''Setup failed''])"

text \<open>
  \<^verbatim>\<open>run_mac_setup\<close>: load the progress, run the blocks; when all of them went
  through, \<^verbatim>\<open>print_completion_message\<close>, \<^verbatim>\<open>cleanup_progress\<close> and \<^verbatim>\<open>return True\<close>,
  otherwise \<^verbatim>\<open>return False\<close>. The result also says how a failed run ended. Of the
  completion message only its \<^verbatim>\<open>print_success\<close> line is recorded.
\<close>

definition run_mac_setup :: "(int \<Rightarrow> step_outcome) \<Rightarrow> bool \<Rightarrow> wizard \<Rightarrow> (bool \<times> halt option) \<times> wizard" where
  "run_mac_setup exec sync s =
     (case run_blocks exec sync mac_steps (load_progress s) of
        (None, s') \<Rightarrow>
          ((True, None), cleanup_progress (s'\<lparr>printed := printed s' @ [Msg Success ''Suna Mac Setup Complete!'']\<rparr>))
      | (Some h, s') \<Rightarrow>
          ((False, Some h), s'\<lparr>printed := printed s' @ halt_output h (last (executed s'))\<rparr>))"


text \<open>
  A step stops the run when its executor is interrupted, raises, or (for a checked step)
  returns \<^verbatim>\<open>False\<close>.
\<close>

definition stops_run :: "(int \<Rightarrow> step_outcome) \<Rightarrow> int \<Rightarrow> bool" where
  "stops_run exec i =
     (case exec i of Returned r \<Rightarrow> (i, True) \<in> set mac_steps \<and> \<not> r | Interrupted \<Rightarrow> True | Raised \<Rightarrow> True)"


section \<open>start\_mac.py: the service manager\<close>

subsection \<open>Library calls\<close>

text \<open>
  \<^verbatim>\<open>subprocess.run(cmd, check=...)\<close>: the invocation is recorded whether or not the
  binary exists. With \<^verbatim>\<open>check=True\<close> a non-zero exit code raises
  \<^verbatim>\<open>CalledProcessError\<close>. The value returned is the captured standard output.
  \<^verbatim>\<open>time.sleep(n)\<close> appears in the functions below as the event \<open>Sleep n\<close>.
\<close>

definition subprocess_run :: "world \<Rightarrow> bool \<Rightarrow> string list \<Rightarrow> string io" where
  "subprocess_run W check cmd tr =
     (case run_proc W tr cmd of
        Binary_missing \<Rightarrow> (Inl FileNotFoundError, tr @ [Proc cmd])
      | Exited code out \<Rightarrow>
          (if check \<and> code \<noteq> 0 then Inl (CalledProcessError code) else Inr out, tr @ [Proc cmd]))"

text \<open>
  \<^verbatim>\<open>str.strip()\<close> removes leading and trailing whitespace. A character here is a code
  point below 256; those for which \<^verbatim>\<open>str.isspace\<close> holds are 0x09 to 0x0D, 0x1C to
  0x1F, 0x20, 0x85 and 0xA0.
\<close>

definition is_space :: "char \<Rightarrow> bool" where
  "is_space c =
     (c \<in> set [CHR 0x09, CHR 0x0A, CHR 0x0B, CHR 0x0C, CHR 0x0D, CHR 0x1C, CHR 0x1D, CHR 0x1E,
                CHR 0x1F, CHR 0x20, CHR 0x85, CHR 0xA0])"

definition strip :: "string \<Rightarrow> string" where
  "strip s = rev (dropWhile is_space (rev (dropWhile is_space s)))"

subsection \<open>MacSunaManager\<close>

text \<open>
  \<^verbatim>\<open>detect_apple_silicon\<close>: \<^verbatim>\<open>uname -m\<close> without \<^verbatim>\<open>check\<close>; the bare
  \<^verbatim>\<open>except\<close> turns every exception into \<^verbatim>\<open>False\<close>.
\<close>

definition detect_apple_silicon :: "world \<Rightarrow> bool io" where
  "detect_apple_silicon W tr =
     (case subprocess_run W False [''uname'', ''-m''] tr of
        (Inr out, tr') \<Rightarrow> (Inr (strip out = ''arm64''), tr')
      | (Inl e, tr') \<Rightarrow> (Inr False, tr'))"

definition compose :: "string \<Rightarrow> string list \<Rightarrow> string list" where
  "compose compose_file args = [''docker'', ''compose'', ''-f'', compose_file] @ args"

definition docker_info :: "string list" where
  "docker_info = [''docker'', ''info'']"

text \<open>
  The waiting loop of \<^verbatim>\<open>check_prerequisites\<close>, \<^verbatim>\<open>for i in range(30)\<close>, with the
  number of iterations left as its argument. It gives \<^verbatim>\<open>True\<close> on \<^verbatim>\<open>break\<close> and
  \<^verbatim>\<open>False\<close> when the loop ran out (the \<^verbatim>\<open>else\<close> branch of the \<^verbatim>\<open>for\<close>). Only
  \<^verbatim>\<open>CalledProcessError\<close> is caught.
\<close>

fun wait_for_docker :: "world \<Rightarrow> nat \<Rightarrow> bool io" where
  "wait_for_docker W 0 tr = (Inr False, tr)"
| "wait_for_docker W (Suc n) tr =
     (case subprocess_run W True docker_info tr of
        (Inr out, tr') \<Rightarrow> (Inr True, tr' @ [Msg Success ''Docker Desktop is now running''])
      | (Inl (CalledProcessError c), tr') \<Rightarrow> wait_for_docker W n (tr' @ [Sleep 2, Msg Plain ''.''])
      | (Inl e, tr') \<Rightarrow> (Inl e, tr'))"

text \<open>
  The first half of \<^verbatim>\<open>check_prerequisites\<close>: is Docker running, and if not, start
  Docker Desktop and wait. The result \<^verbatim>\<open>False\<close> stands for the two
  \<^verbatim>\<open>return False\<close> of this half.
\<close>

definition ensure_docker :: "world \<Rightarrow> bool io" where
  "ensure_docker W tr =
     (case subprocess_run W True docker_info (tr @ [Msg Info ''Checking prerequisites...'']) of
        (Inr out, tr1) \<Rightarrow> (Inr True, tr1 @ [Msg Success ''Docker Desktop is running''])
      | (Inl (CalledProcessError c), tr1) \<Rightarrow>
          (case subprocess_run W True [''open'', ''/Applications/Docker.app'']
                  (tr1 @ [Msg Error ''Docker Desktop is not running'', Msg Info ''Starting Docker Desktop...'']) of
             (Inr out, tr2) \<Rightarrow>
               (case wait_for_docker W 30 (tr2 @ [Msg Info ''Waiting for Docker Desktop to start...'']) of
                  (Inr True, tr3) \<Rightarrow> (Inr True, tr3)
                | (Inr False, tr3) \<Rightarrow> (Inr False, tr3 @ [Msg Error ''Docker Desktop failed to start''])
                | (Inl e, tr3) \<Rightarrow> (Inl e, tr3))
           | (Inl (CalledProcessError c'), tr2) \<Rightarrow> (Inr False, tr2 @ [Msg Error ''Failed to start Docker Desktop''])
           | (Inl e, tr2) \<Rightarrow> (Inl e, tr2))
      | (Inl e, tr1) \<Rightarrow> (Inl e, tr1))"

text \<open>
  \<^verbatim>\<open>check_prerequisites\<close> returns its verdict together with \<^verbatim>\<open>self.compose_file\<close>,
  which it may replace by the fallback name.
\<close>

definition check_prerequisites :: "world \<Rightarrow> string \<Rightarrow> (bool \<times> string) io" where
  "check_prerequisites W compose_file tr =
     (case ensure_docker W tr of
        (Inl e, tr1) \<Rightarrow> (Inl e, tr1)
      | (Inr False, tr1) \<Rightarrow> (Inr (False, compose_file), tr1)
      | (Inr True, tr1) \<Rightarrow>
          (let (compose_file', tr2) =
                 (if \<not> path_exists W compose_file
                  then (''docker-compose.yaml'', tr1 @ [Msg Warning (compose_file @ '' not found, using docker-compose.yaml'')])
                  else (compose_file, tr1))
           in if \<not> path_exists W ''backend/.env''
              then (Inr (False, compose_file'), tr2 @ [Msg Error ''backend/.env not found. Run setup_mac.py first.''])
              else if \<not> path_exists W ''frontend/.env.local''
              then (Inr (False, compose_file'), tr2 @ [Msg Error ''frontend/.env.local not found. Run setup_mac.py first.''])
              else (Inr (True, compose_file'), tr2)))"

text \<open>
  \<^verbatim>\<open>check_service_health\<close>: one \<^verbatim>\<open>urlopen\<close> for each of the two entries of the
  dictionary, in order. \<^verbatim>\<open>except Exception\<close> catches whatever \<^verbatim>\<open>urlopen\<close> raises, so
  the function always returns. It returns nothing: the verdicts are the messages.
\<close>

definition health_services :: "(string \<times> string) list" where
  "health_services =
     [(''Frontend'', ''http://localhost:3000''), (''Backend'', ''http://localhost:8000/health'')]"

definition probe_health :: "world \<Rightarrow> string \<times> string \<Rightarrow> event list \<Rightarrow> event list" where
  "probe_health W = (\<lambda>(service, url) tr.
     (case urlopen W tr url of
        Responded code \<Rightarrow> tr @ [Http url, Msg Success (service @ '' is healthy'')]
      | URLError \<Rightarrow> tr @ [Http url, Msg Warning (service @ '' is not responding'')]
      | Other_exception \<Rightarrow> tr @ [Http url, Msg Warning (service @ '' is not responding'')]))"

definition check_service_health :: "world \<Rightarrow> unit io" where
  "check_service_health W tr =
     (Inr (), foldl (\<lambda>t s. probe_health W s t) (tr @ [Msg Info ''Checking service health...'']) health_services)"

definition start_services :: "world \<Rightarrow> string \<Rightarrow> bool io" where
  "start_services W compose_file tr =
     (case subprocess_run W True (compose compose_file [''pull''])
             (tr @ [Msg Info ''Starting Suna services...'', Msg Info ''Pulling latest images...'']) of
        (Inr out, tr1) \<Rightarrow>
          (case subprocess_run W True (compose compose_file [''up'', ''-d''])
                  (tr1 @ [Msg Info ''Starting containers...'']) of
             (Inr out', tr2) \<Rightarrow>
               (case check_service_health W
                       (tr2 @ [Msg Success ''Services started successfully'',
                               Msg Info ''Waiting for services to be ready...'', Sleep 10]) of
                  (Inr u, tr3) \<Rightarrow> (Inr True, tr3)
                | (Inl e, tr3) \<Rightarrow> (Inl e, tr3))
           | (Inl (CalledProcessError c), tr2) \<Rightarrow> (Inr False, tr2 @ [Msg Error ''Failed to start services''])
           | (Inl e, tr2) \<Rightarrow> (Inl e, tr2))
      | (Inl (CalledProcessError c), tr1) \<Rightarrow> (Inr False, tr1 @ [Msg Error ''Failed to start services''])
      | (Inl e, tr1) \<Rightarrow> (Inl e, tr1))"

definition stop_services :: "world \<Rightarrow> string \<Rightarrow> bool io" where
  "stop_services W compose_file tr =
     (case subprocess_run W True (compose compose_file [''down''])
             (tr @ [Msg Info ''Stopping Suna services...'']) of
        (Inr out, tr1) \<Rightarrow> (Inr True, tr1 @ [Msg Success ''Services stopped successfully''])
      | (Inl (CalledProcessError c), tr1) \<Rightarrow> (Inr False, tr1 @ [Msg Error ''Failed to stop services''])
      | (Inl e, tr1) \<Rightarrow> (Inl e, tr1))"

definition restart_services :: "world \<Rightarrow> string \<Rightarrow> bool io" where
  "restart_services W compose_file tr =
     (case stop_services W compose_file (tr @ [Msg Info ''Restarting Suna services...'']) of
        (Inr True, tr1) \<Rightarrow> start_services W compose_file (tr1 @ [Sleep 2])
      | (Inr False, tr1) \<Rightarrow> (Inr False, tr1)
      | (Inl e, tr1) \<Rightarrow> (Inl e, tr1))"


text \<open>
  \<^verbatim>\<open>get_service_status\<close>: \<^verbatim>\<open>docker compose ps --format json\<close>. The JSON text is
  read by \<^verbatim>\<open>json.loads\<close>, and a value that is not a list is wrapped into a list of
  one. The world's \<open>json_services\<close> stands for that parser: \<open>None\<close> for
  \<^verbatim>\<open>JSONDecodeError\<close>, otherwise the elements in order, each either an object, given by
  what the three \<^verbatim>\<open>.get\<close> calls of \<^verbatim>\<open>show_status\<close> find (name, state, status), or
  \<open>None\<close> for a value that is not an object and has no \<^verbatim>\<open>get\<close>.
\<close>

definition get_service_status :: "world \<Rightarrow> string \<Rightarrow> (string \<times> string \<times> string) option list io" where
  "get_service_status W compose_file tr =
     (case subprocess_run W True (compose compose_file [''ps'', ''--format'', ''json'']) tr of
        (Inr out, tr1) \<Rightarrow>
          (if strip out \<noteq> []
           then (case json_services W out of Some services \<Rightarrow> (Inr services, tr1) | None \<Rightarrow> (Inr [], tr1))
           else (Inr [], tr1))
      | (Inl (CalledProcessError c), tr1) \<Rightarrow> (Inr [], tr1)
      | (Inl e, tr1) \<Rightarrow> (Inl e, tr1))"

definition status_line :: "string \<times> string \<times> string \<Rightarrow> event" where
  "status_line = (\<lambda>(name, state, status).
     Msg (if state = ''running'' then Success else Warning) (name @ '': '' @ state @ '' ('' @ status @ '')''))"

text \<open>
  The loop of \<^verbatim>\<open>show_status\<close> over the services: one line for each object; an element
  without \<^verbatim>\<open>get\<close> raises \<^verbatim>\<open>AttributeError\<close>, which nothing catches.
\<close>

fun status_lines :: "(string \<times> string \<times> string) option list \<Rightarrow> unit io" where
  "status_lines [] tr = (Inr (), tr)"
| "status_lines (Some service # services) tr = status_lines services (tr @ [status_line service])"
| "status_lines (None # services) tr = (Inl AttributeError, tr)"

definition show_status :: "world \<Rightarrow> string \<Rightarrow> unit io" where
  "show_status W compose_file tr =
     (case get_service_status W compose_file (tr @ [Msg Info ''Service Status:'']) of
        (Inl e, tr1) \<Rightarrow> (Inl e, tr1)
      | (Inr services, tr1) \<Rightarrow>
          (if services = [] then (Inr (), tr1 @ [Msg Warning ''No services are running''])
           else (case status_lines services tr1 of
                   (Inl e, tr2) \<Rightarrow> (Inl e, tr2)
                 | (Inr u, tr2) \<Rightarrow> check_service_health W tr2)))"

definition show_logs :: "world \<Rightarrow> string \<Rightarrow> string option \<Rightarrow> bool \<Rightarrow> unit io" where
  "show_logs W compose_file service follow tr =
     (let cmd = compose compose_file [''logs'']
                  @ (if follow then [''-f''] else [])
                  @ (case service of Some sv \<Rightarrow> (if sv \<noteq> [] then [sv] else []) | None \<Rightarrow> [])
      in if follow
         then (case subprocess_run W False cmd (tr @ [Msg Info ''Following logs. Press Ctrl+C to stop.'']) of
                 (Inr out, tr1) \<Rightarrow> (Inr (), tr1)
               | (Inl e, tr1) \<Rightarrow> (Inl e, tr1))
         else (case subprocess_run W True cmd tr of
                 (Inr out, tr1) \<Rightarrow> (Inr (), tr1 @ [Msg Plain out])
               | (Inl (CalledProcessError c), tr1) \<Rightarrow> (Inr (), tr1 @ [Msg Error ''Failed to get logs''])
               | (Inl e, tr1) \<Rightarrow> (Inl e, tr1)))"

definition open_browser :: "world \<Rightarrow> unit io" where
  "open_browser W tr =
     (case subprocess_run W True [''open'', ''http://localhost:3000''] tr of
        (Inr out, tr1) \<Rightarrow> (Inr (), tr1 @ [Msg Success ''Opened Suna in browser''])
      | (Inl (CalledProcessError c), tr1) \<Rightarrow> (Inr (), tr1 @ [Msg Error ''Failed to open browser''])
      | (Inl e, tr1) \<Rightarrow> (Inl e, tr1))"

text \<open>
  \<^verbatim>\<open>show_system_info\<close>: three subprocesses, each in a \<^verbatim>\<open>try\<close> with a bare
  \<^verbatim>\<open>except\<close>, so nothing escapes; what it prints is plain text.
\<close>

definition show_system_info :: "world \<Rightarrow> unit io" where
  "show_system_info W tr =
     (let tr1 = snd (subprocess_run W False [''sw_vers'', ''-productVersion''] (tr @ [Msg Info ''Mac System Information:'']));
          tr2 = snd (subprocess_run W False [''sysctl'', ''hw.memsize''] tr1);
          tr3 = snd (subprocess_run W True [''docker'', ''system'', ''info'', ''--format'', ''json''] tr2)
      in (Inr (), tr3))"

definition cleanup_docker :: "world \<Rightarrow> unit io" where
  "cleanup_docker W tr =
     (case subprocess_run W True [''docker'', ''system'', ''prune'', ''-f'']
             (tr @ [Msg Info ''Cleaning up Docker resources...'']) of
        (Inr out, tr1) \<Rightarrow> (Inr (), tr1 @ [Msg Success ''Docker cleanup completed''])
      | (Inl (CalledProcessError c), tr1) \<Rightarrow> (Inr (), tr1 @ [Msg Error ''Docker cleanup failed''])
      | (Inl e, tr1) \<Rightarrow> (Inl e, tr1))"

definition show_help :: "unit io" where
  "show_help tr = (Inr (), tr @ [Msg Plain ''Usage: python start_mac.py [command]''])"

definition print_banner :: "unit io" where
  "print_banner tr = (Inr (), tr @ [Msg Plain ''Mac Service Manager''])"

subsection \<open>main\<close>

text \<open>
  A command that reports success or failure: the \<^verbatim>\<open>if manager.f(): ... else:
  sys.exit(1)\<close> of the branches \<^verbatim>\<open>start\<close>, \<^verbatim>\<open>stop\<close> and \<^verbatim>\<open>restart\<close>.
\<close>

definition or_exit :: "bool io \<Rightarrow> event list \<Rightarrow> unit io" where
  "or_exit action on_success tr =
     (case action tr of
        (Inr True, tr1) \<Rightarrow> (Inr (), tr1 @ on_success)
      | (Inr False, tr1) \<Rightarrow> (Inl (SystemExit 1), tr1)
      | (Inl e, tr1) \<Rightarrow> (Inl e, tr1))"

definition argv_opt :: "string list \<Rightarrow> nat \<Rightarrow> string option" where
  "argv_opt argv n = (if length argv > n then Some (argv ! n) else None)"

text \<open>The \<^verbatim>\<open>if\<close>/\<^verbatim>\<open>elif\<close> chain of \<^verbatim>\<open>main\<close>, in source order.\<close>

definition dispatch :: "world \<Rightarrow> string \<Rightarrow> string \<Rightarrow> string list \<Rightarrow> unit io" where
  "dispatch W compose_file command argv =
     (if command = ''start'' then
        or_exit (start_services W compose_file)
          [Msg Success ''Suna is now running!'', Msg Info ''Frontend: http://localhost:3000'',
           Msg Info ''Backend: http://localhost:8000'',
           Msg Info ''Use python start_mac.py stop to stop services'']
      else if command = ''stop'' then
        or_exit (stop_services W compose_file) [Msg Success ''Suna services stopped'']
      else if command = ''restart'' then
        or_exit (restart_services W compose_file) [Msg Success ''Suna services restarted'']
      else if command = ''status'' then show_status W compose_file
      else if command = ''logs'' then show_logs W compose_file (argv_opt argv 2) False
      else if command = ''follow'' then show_logs W compose_file (argv_opt argv 2) True
      else if command = ''open'' then open_browser W
      else if command = ''info'' then show_system_info W
      else if command = ''cleanup'' then cleanup_docker W
      else (\<lambda>tr. (Inl (SystemExit 1),
                  tr @ [Msg Error (''Unknown command: '' @ command),
                        Msg Info ''Use python start_mac.py help for available commands''])))"

text \<open>
  \<^verbatim>\<open>main\<close>: the macOS guard; the constructor of \<^verbatim>\<open>MacSunaManager\<close> (which runs
  \<^verbatim>\<open>detect_apple_silicon\<close> and sets \<^verbatim>\<open>compose_file\<close> to the Mac descriptor); the
  command, \<^verbatim>\<open>sys.argv[1]\<close> or \<^verbatim>\<open>"start"\<close>; \<^verbatim>\<open>help\<close> returns at once; the banner;
  the prerequisites for every command but \<^verbatim>\<open>help\<close> and \<^verbatim>\<open>info\<close>; the dispatch.
\<close>

definition main :: "world \<Rightarrow> string list \<Rightarrow> unit io" where
  "main W argv tr =
     (if platform_system W \<noteq> ''Darwin''
      then (Inl (SystemExit 1),
            tr @ [Msg Error ''This script is designed for macOS only.'',
                  Msg Info ''For other platforms, use: python start.py''])
      else
        (case detect_apple_silicon W tr of
           (Inl e, tr0) \<Rightarrow> (Inl e, tr0)
         | (Inr is_apple_silicon, tr0) \<Rightarrow>
             (let command = (if length argv > 1 then argv ! 1 else ''start'') in
              if command = ''help'' then show_help tr0
              else
                (case print_banner tr0 of
                   (Inl e, tr1) \<Rightarrow> (Inl e, tr1)
                 | (Inr u, tr1) \<Rightarrow>
                     (if command \<notin> set [''help'', ''info'']
                      then (case check_prerequisites W ''docker-compose.mac.yaml'' tr1 of
                              (Inl e, tr2) \<Rightarrow> (Inl e, tr2)
                            | (Inr (False, compose_file), tr2) \<Rightarrow>
                                (Inl (SystemExit 1),
                                 tr2 @ [Msg Error ''Prerequisites not met. Please fix the issues above.''])
                            | (Inr (True, compose_file), tr2) \<Rightarrow> dispatch W compose_file command argv tr2)
                      else dispatch W ''docker-compose.mac.yaml'' command argv tr1)))))"

text \<open>
  The exit status of the process: 0 when \<^verbatim>\<open>main\<close> returns, the argument of
  \<^verbatim>\<open>sys.exit\<close>, and 1 when an exception reaches the top level (the interpreter prints
  the traceback and exits with 1).
\<close>

definition exit_status :: "exn + unit \<Rightarrow> int" where
  "exit_status r = (case r of Inr u \<Rightarrow> 0 | Inl (SystemExit n) \<Rightarrow> n | Inl e \<Rightarrow> 1)"

section \<open>setup\_mac.py: health check and configuration files\<close>

text \<open>
  \<^verbatim>\<open>MacSunaSetup.check_service_health\<close>: as the manager's, with a bare \<^verbatim>\<open>except\<close>,
  no heading and another warning text.
\<close>

definition setup_probe_health :: "world \<Rightarrow> string \<times> string \<Rightarrow> event list \<Rightarrow> event list" where
  "setup_probe_health W = (\<lambda>(service, url) tr.
     (case urlopen W tr url of
        Responded code \<Rightarrow> tr @ [Http url, Msg Success (service @ '' is healthy'')]
      | URLError \<Rightarrow> tr @ [Http url, Msg Warning (service @ '' is not responding yet'')]
      | Other_exception \<Rightarrow> tr @ [Http url, Msg Warning (service @ '' is not responding yet'')]))"

definition setup_check_service_health :: "world \<Rightarrow> unit io" where
  "setup_check_service_health W tr =
     (Inr (), foldl (\<lambda>t s. setup_probe_health W s t) tr health_services)"

text \<open>
  A Python dictionary keeps its keys in the order of first insertion; storing under a
  key that is there replaces the value and keeps the place. A dictionary literal with
  \<^verbatim>\<open>**d\<close> entries stores its items from left to right.
\<close>

type_synonym pydict = "(string \<times> string option) list"

fun dict_set :: "pydict \<Rightarrow> string \<Rightarrow> string option \<Rightarrow> pydict" where
  "dict_set [] k v = [(k, v)]"
| "dict_set ((k', v') # d) k v = (if k' = k then (k', v) # d else (k', v') # dict_set d k v)"

definition dict_literal :: "(string \<times> string option) list \<Rightarrow> pydict" where
  "dict_literal items = foldl (\<lambda>d (k, v). dict_set d k v) [] items"

text \<open>
  The wizard's fields that \<^verbatim>\<open>configure_mac_env_files\<close> reads:
  \<^verbatim>\<open>self.is_apple_silicon\<close>, \<^verbatim>\<open>self.env_vars["setup_method"]\<close> (\<open>None\<close> when the key
  is missing) and the categories of \<^verbatim>\<open>self.env_vars\<close>. A value is a string or
  \<^verbatim>\<open>None\<close>. \<^verbatim>\<open>docker_platform\<close> and \<^verbatim>\<open>homebrew_prefix\<close> are set once in
  \<^verbatim>\<open>__init__\<close> from \<^verbatim>\<open>is_apple_silicon\<close>.
\<close>

record mac_setup =
  is_apple_silicon :: bool
  setup_method :: "string option"
  env_vars :: "string \<rightharpoonup> pydict"

definition docker_platform :: "mac_setup \<Rightarrow> string" where
  "docker_platform s = (if is_apple_silicon s then ''linux/arm64'' else ''linux/amd64'')"

definition get_homebrew_prefix :: "mac_setup \<Rightarrow> string" where
  "get_homebrew_prefix s = (if is_apple_silicon s then ''/opt/homebrew'' else ''/usr/local'')"

definition mac_architecture :: "mac_setup \<Rightarrow> string" where
  "mac_architecture s = (if is_apple_silicon s then ''arm64'' else ''x86_64'')"

text \<open>\<^verbatim>\<open>self.env_vars[name]\<close>, raising \<^verbatim>\<open>KeyError\<close>, followed by the rest.\<close>

definition with_category :: "mac_setup \<Rightarrow> string \<Rightarrow> (pydict \<Rightarrow> exn + 'a) \<Rightarrow> exn + 'a" where
  "with_category s name k = (case env_vars s name of None \<Rightarrow> Inl (KeyError name) | Some d \<Rightarrow> k d)"

definition backend_env :: "mac_setup \<Rightarrow> string \<Rightarrow> exn + pydict" where
  "backend_env s method =
     (let redis_host = (if method = ''docker'' then ''redis'' else ''localhost'');
          rabbitmq_host = (if method = ''docker'' then ''rabbitmq'' else ''localhost'')
      in
      with_category s ''supabase'' (\<lambda>supabase.
      with_category s ''llm'' (\<lambda>llm.
      with_category s ''search'' (\<lambda>search.
      with_category s ''rapidapi'' (\<lambda>rapidapi.
      with_category s ''smithery'' (\<lambda>smithery.
      with_category s ''qstash'' (\<lambda>qstash.
      with_category s ''mcp'' (\<lambda>mcp.
      with_category s ''daytona'' (\<lambda>daytona.
        (let d = dict_literal
                   ([(''ENV_MODE'', Some ''local'')] @ supabase @
                    [(''REDIS_HOST'', Some redis_host), (''REDIS_PORT'', Some ''6379''),
                     (''RABBITMQ_HOST'', Some rabbitmq_host), (''RABBITMQ_PORT'', Some ''5672'')] @
                    llm @ search @ rapidapi @ smithery @ qstash @ mcp @ daytona @
                    [(''NEXT_PUBLIC_URL'', Some ''http://localhost:3000''),
                     (''DOCKER_PLATFORM'', Some (docker_platform s)),
                     (''HOMEBREW_PREFIX'', Some (get_homebrew_prefix s)),
                     (''MAC_ARCHITECTURE'', Some (mac_architecture s))])
         in Inr (if is_apple_silicon s
                 then dict_set (dict_set d ''DOCKER_BUILDKIT'' (Some ''1''))
                        ''DOCKER_DEFAULT_PLATFORM'' (Some ''linux/arm64'')
                 else d)))))))))))"

definition nl :: string where
  "nl = [CHR 0x0A]"

text \<open>One line \<^verbatim>\<open>f"{key}={value or ''}\n"\<close> for every item, in the dictionary's order.\<close>

definition env_lines :: "pydict \<Rightarrow> string" where
  "env_lines d = concat (map (\<lambda>(key, v). key @ ''='' @ (case v of None \<Rightarrow> [] | Some t \<Rightarrow> t) @ nl) d)"

definition architecture_name :: "mac_setup \<Rightarrow> string" where
  "architecture_name s = (if is_apple_silicon s then ''Apple Silicon'' else ''Intel'')"

definition backend_env_content :: "mac_setup \<Rightarrow> string \<Rightarrow> pydict \<Rightarrow> string" where
  "backend_env_content s method d =
     ''# Generated by Suna Mac setup script'' @ nl @
     ''# Architecture: '' @ architecture_name s @ nl @
     ''# Setup Method: '' @ method @ nl @ nl @
     env_lines d"

text \<open>\<^verbatim>\<open>d[key]\<close> on a category, raising \<^verbatim>\<open>KeyError\<close>.\<close>

definition item :: "pydict \<Rightarrow> string \<Rightarrow> exn + string option" where
  "item d key = (case map_of d key of None \<Rightarrow> Inl (KeyError key) | Some v \<Rightarrow> Inr v)"

definition frontend_env :: "mac_setup \<Rightarrow> exn + pydict" where
  "frontend_env s =
     with_category s ''supabase'' (\<lambda>supabase.
       (case item supabase ''SUPABASE_URL'' of
          Inl e \<Rightarrow> Inl e
        | Inr url \<Rightarrow>
            with_category s ''supabase'' (\<lambda>supabase'.
              (case item supabase' ''SUPABASE_ANON_KEY'' of
                 Inl e \<Rightarrow> Inl e
               | Inr anon_key \<Rightarrow>
                   Inr (dict_literal
                     [(''NEXT_PUBLIC_SUPABASE_URL'', url),
                      (''NEXT_PUBLIC_SUPABASE_ANON_KEY'', anon_key),
                      (''NEXT_PUBLIC_BACKEND_URL'', Some ''http://localhost:8000/api''),
                      (''NEXT_PUBLIC_URL'', Some ''http://localhost:3000''),
                      (''NEXT_PUBLIC_ENV_MODE'', Some ''LOCAL''),
                      (''NEXT_PUBLIC_MAC_ARCHITECTURE'', Some (mac_architecture s))])))))"

definition frontend_env_content :: "mac_setup \<Rightarrow> pydict \<Rightarrow> string" where
  "frontend_env_content s d =
     ''# Generated by Suna Mac setup script'' @ nl @
     ''# Architecture: '' @ architecture_name s @ nl @ nl @
     env_lines d"

text \<open>
  File writes, one primitive operation at a time. \<^verbatim>\<open>open(path, "w")\<close> creates the
  file or truncates it to length zero; \<^verbatim>\<open>f.write(text)\<close> appends to what the file
  holds. \<^verbatim>\<open>with open(path, "w") as f: f.write(text)\<close> is the one followed by the
  other, on the target path itself. The directories \<^verbatim>\<open>backend\<close> and \<^verbatim>\<open>frontend\<close>
  are taken to exist and the disk to accept the writes.
\<close>

datatype fs_op = Open_w string | Write string string

type_synonym filesystem = "string \<rightharpoonup> string"

fun apply_op :: "filesystem \<Rightarrow> fs_op \<Rightarrow> filesystem" where
  "apply_op fs (Open_w path) = fs(path \<mapsto> [])"
| "apply_op fs (Write path t) = fs(path \<mapsto> (case fs path of None \<Rightarrow> t | Some old \<Rightarrow> old @ t))"

definition run_ops :: "fs_op list \<Rightarrow> filesystem \<Rightarrow> filesystem" where
  "run_ops ops fs = foldl apply_op fs ops"

text \<open>A crash after the first \<open>n\<close> primitive operations of a write sequence.\<close>

definition crash_after :: "nat \<Rightarrow> fs_op list \<Rightarrow> filesystem \<Rightarrow> filesystem" where
  "crash_after n ops fs = run_ops (take n ops) fs"

definition write_file :: "string \<Rightarrow> string \<Rightarrow> fs_op list" where
  "write_file path t = [Open_w path, Write path t]"

text \<open>
  \<^verbatim>\<open>configure_mac_env_files\<close>: the file operations it performs, in order, and the
  exception that ended it, if any. The backend dictionary is complete before the first
  file is opened; the frontend dictionary is built after the backend file is written.
\<close>

definition configure_mac_env_files :: "mac_setup \<Rightarrow> fs_op list \<times> exn option" where
  "configure_mac_env_files s =
     (case setup_method s of
        None \<Rightarrow> ([], Some (KeyError ''setup_method''))
      | Some method \<Rightarrow>
          (case backend_env s method of
             Inl e \<Rightarrow> ([], Some e)
           | Inr backend \<Rightarrow>
               (let w1 = write_file ''backend/.env'' (backend_env_content s method backend) in
                case frontend_env s of
                  Inl e \<Rightarrow> (w1, Some e)
                | Inr frontend \<Rightarrow>
                    (w1 @ write_file ''frontend/.env.local'' (frontend_env_content s frontend), None))))"

section \<open>The health poll as the specification words it\<close>

text \<open>
  The specification's \<^verbatim>\<open>HealthChecker.poll(services, maxAttempts, interval)\<close>, written
  from its words to be compared with the code: in each attempt every service not yet
  healthy is requested once; when all are healthy the poll stops; otherwise, unless the
  attempts are used up, it sleeps \<open>interval\<close> and tries again. It returns the names of
  the services reported unhealthy.
\<close>

definition spec_probe :: "world \<Rightarrow> string \<times> string \<Rightarrow> (string \<times> string) list \<times> event list \<Rightarrow> (string \<times> string) list \<times> event list" where
  "spec_probe W = (\<lambda>(service, url) (pending, tr).
     (case urlopen W tr url of
        Responded code \<Rightarrow> (pending, tr @ [Http url])
      | URLError \<Rightarrow> (pending @ [(service, url)], tr @ [Http url])
      | Other_exception \<Rightarrow> (pending @ [(service, url)], tr @ [Http url])))"

fun spec_poll :: "world \<Rightarrow> nat \<Rightarrow> nat \<Rightarrow> (string \<times> string) list \<Rightarrow> event list \<Rightarrow> string list \<times> event list" where
  "spec_poll W 0 interval services tr = (map fst services, tr)"
| "spec_poll W (Suc n) interval services tr =
     (let (pending, tr') = foldl (\<lambda>acc s. spec_probe W s acc) ([], tr) services
      in if pending = [] then ([], tr')
         else if n = 0 then (map fst pending, tr')
         else spec_poll W n interval pending (tr' @ [Sleep interval]))"

definition is_http :: "event \<Rightarrow> bool" where
  "is_http e = (case e of Http url \<Rightarrow> True | _ \<Rightarrow> False)"

definition is_sleep :: "event \<Rightarrow> bool" where
  "is_sleep e = (case e of Sleep n \<Rightarrow> True | _ \<Rightarrow> False)"

definition is_proc :: "event \<Rightarrow> bool" where
  "is_proc e = (case e of Proc cmd \<Rightarrow> True | _ \<Rightarrow> False)"

section \<open>Example worlds and inputs\<close>

text \<open>A machine on which every command succeeds and every service answers.\<close>

definition all_up :: world where
  "all_up =
     \<lparr>platform_system = ''Darwin'', run_proc = (\<lambda>tr cmd. Exited 0 []),
      urlopen = (\<lambda>tr url. Responded 200), path_exists = (\<lambda>p. True),
      json_services = (\<lambda>t. None)\<rparr>"

text \<open>A Mac without the \<^verbatim>\<open>docker\<close> binary, on which no service answers.\<close>

definition no_docker :: world where
  "no_docker =
     \<lparr>platform_system = ''Darwin'',
      run_proc = (\<lambda>tr cmd. if take 1 cmd = [''docker''] then Binary_missing else Exited 0 []),
      urlopen = (\<lambda>tr url. URLError), path_exists = (\<lambda>p. True),
      json_services = (\<lambda>t. None)\<rparr>"


definition resumed :: "int \<Rightarrow> wizard" where
  "resumed k = \<lparr>current_step = 0, progress_file = Some k, executed = [], printed = []\<rparr>"

text \<open>Executors that all succeed, and the same with Docker failing in step 2.\<close>

definition all_succeed :: "int \<Rightarrow> step_outcome" where
  "all_succeed i = Returned True"


text \<open>The flag of a block, as a function of its number.\<close>

definition block :: "int \<Rightarrow> int \<times> bool" where
  "block i = (i, i = 2 \<or> i = 14 \<or> i = 15)"

text \<open>How the run ends when the executor of a step that stops it came back with \<open>r\<close>.\<close>

definition halt_of :: "step_outcome \<Rightarrow> halt" where
  "halt_of r = (case r of Returned b \<Rightarrow> Step_failed | Interrupted \<Rightarrow> Caught_KeyboardInterrupt | Raised \<Rightarrow> Caught_Exception)"


text \<open>A machine that is not a Mac, otherwise as \<open>all_up\<close>.\<close>

definition linux_box :: world where
  "linux_box = all_up\<lparr>platform_system := ''Linux''\<rparr>"

text \<open>The commands \<^verbatim>\<open>main\<close> knows.\<close>

definition known_commands :: "string list" where
  "known_commands =
     [''help'', ''start'', ''stop'', ''restart'', ''status'', ''logs'', ''follow'', ''open'',
      ''info'', ''cleanup'']"

text \<open>
  A wizard on Apple Silicon after the collection steps, with the eight categories
  filled (some values left empty), and a file system that holds an earlier backend file.
\<close>

definition example_setup :: mac_setup where
  "example_setup =
     \<lparr>is_apple_silicon = True, setup_method = Some ''docker'',
      env_vars = map_of
        [(''supabase'', [(''SUPABASE_URL'', Some ''https://abc.supabase.co''),
                         (''SUPABASE_ANON_KEY'', Some ''anon''),
                         (''SUPABASE_SERVICE_ROLE_KEY'', Some ''role'')]),
         (''llm'', [(''OPENAI_API_KEY'', None), (''MODEL_TO_USE'', Some ''m1'')]),
         (''search'', [(''TAVILY_API_KEY'', Some ''tv'')]),
         (''rapidapi'', [(''RAPID_API_KEY'', None)]),
         (''smithery'', []),
         (''qstash'', [(''QSTASH_TOKEN'', Some ''qs'')]),
         (''mcp'', [(''MCP_CREDENTIAL_ENCRYPTION_KEY'', Some ''k'')]),
         (''daytona'', [(''DAYTONA_API_KEY'', Some ''dt'')])]\<rparr>"

definition old_files :: filesystem where
  "old_files = [''backend/.env'' \<mapsto> ''ENV_MODE=local'']"

section \<open>Properties of the step orchestrator\<close>

lemma mac_steps_upto: "mac_steps = map block [1..15]"
  by (simp add: mac_steps_def block_def upto_rec1)

lemma stops_run_block:
  "stops_run exec i =
     (case exec i of Returned r \<Rightarrow> snd (block i) \<and> \<not> r | Interrupted \<Rightarrow> True | Raised \<Rightarrow> True)"
  by (auto simp: stops_run_def mac_steps_def block_def split: step_outcome.splits)

lemma run_blocks_append:
  "run_blocks exec sync (xs @ ys) s =
     (case run_blocks exec sync xs s of
        (Some h, s') \<Rightarrow> (Some h, s')
      | (None, s') \<Rightarrow> run_blocks exec sync ys s')"
  by (induction xs arbitrary: s) (auto split: prod.splits option.splits)

lemma run_blocks_skip:
  "\<forall>b \<in> set bs. fst b < current_step s \<Longrightarrow> run_blocks exec sync bs s = (None, s)"
  by (induction bs) (auto simp: run_block_def)

lemma run_block_stops:
  "current_step s \<le> i \<Longrightarrow> stops_run exec i \<Longrightarrow>
   run_block exec sync (block i) s = (Some (halt_of (exec i)), s\<lparr>executed := executed s @ [i]\<rparr>)"
  by (auto simp: run_block_def stops_run_block block_def halt_of_def split: step_outcome.splits)

lemma run_block_goes_on:
  "current_step s \<le> i \<Longrightarrow> \<not> stops_run exec i \<Longrightarrow>
   run_block exec sync (block i) s = (None, save_progress sync i (s\<lparr>executed := executed s @ [i]\<rparr>))"
  by (auto simp: run_block_def stops_run_block block_def split: step_outcome.splits)


lemma run_blocks_from:
  "current_step s \<le> a \<Longrightarrow> a \<le> b \<Longrightarrow>
   \<exists>m r. a \<le> m \<and> m \<le> b \<and> run_blocks exec sync (map block [a..b]) s = r \<and>
       executed (snd r) = executed s @ [a..m] \<and>
       (\<forall>i. a \<le> i \<and> i < m \<longrightarrow> \<not> stops_run exec i) \<and>
       (if stops_run exec m
        then fst r = Some (halt_of (exec m)) \<and>
             progress_file (snd r) = (if m = a then progress_file s else Some m)
        else m = b \<and> fst r = None \<and> progress_file (snd r) = Some (b + 1))"
proof (induction "nat (b - a)" arbitrary: a s)
  case 0
  then have ab: "a = b" by simp
  have l: "[b..b] = [b]" by (simp add: upto_rec1)
  show ?case
  proof (cases "stops_run exec b")
    case True
    from run_block_stops[OF _ True, of s sync] 0 ab have
      "run_block exec sync (block b) s = (Some (halt_of (exec b)), s\<lparr>executed := executed s @ [b]\<rparr>)" by auto
    then show ?thesis using ab l True by (intro exI[of _ b]) auto
  next
    case False
    from run_block_goes_on[OF _ False, of s sync] 0 ab have
      "run_block exec sync (block b) s = (None, save_progress sync b (s\<lparr>executed := executed s @ [b]\<rparr>))" by auto
    then show ?thesis using ab l False by (intro exI[of _ b]) (auto simp: save_progress_def)
  qed
next
  case (Suc n)
  then have lt: "a < b" and n: "n = nat (b - (a + 1))" by auto
  have l: "[a..b] = a # [a + 1..b]" using lt by (simp add: upto_rec1)
  show ?case
  proof (cases "stops_run exec a")
    case True
    from run_block_stops[OF Suc.prems(1) True, of sync] have
      "run_block exec sync (block a) s = (Some (halt_of (exec a)), s\<lparr>executed := executed s @ [a]\<rparr>)" .
    then show ?thesis using l lt True by (intro exI[of _ a]) (auto simp: upto_rec1[of a a])
  next
    case False
    let ?s = "save_progress sync a (s\<lparr>executed := executed s @ [a]\<rparr>)"
    have rb: "run_block exec sync (block a) s = (None, ?s)"
      by (rule run_block_goes_on[OF Suc.prems(1) False])
    have cs: "current_step ?s \<le> a + 1" using Suc.prems(1) by (simp add: save_progress_def)
    define R where "R = run_blocks exec sync (map block [a + 1..b]) ?s"
    from Suc.hyps(1)[OF n cs] lt obtain m where m:
      "a + 1 \<le> m" "m \<le> b"
      "executed (snd R) = executed ?s @ [a + 1..m]"
      "\<forall>i. a + 1 \<le> i \<and> i < m \<longrightarrow> \<not> stops_run exec i"
      "if stops_run exec m
        then fst R = Some (halt_of (exec m)) \<and>
             progress_file (snd R) = (if m = a + 1 then progress_file ?s else Some m)
        else m = b \<and> fst R = None \<and> progress_file (snd R) = Some (b + 1)"
      unfolding R_def by auto
    have am: "[a..m] = a # [a + 1..m]" using m(1) by (simp add: upto_rec1)
    have ex: "executed ?s = executed s @ [a]" and pf: "progress_file ?s = Some (a + 1)"
      by (simp_all add: save_progress_def)
    have nostop: "\<forall>i. a \<le> i \<and> i < m \<longrightarrow> \<not> stops_run exec i"
    proof (intro allI impI)
      fix i assume "a \<le> i \<and> i < m"
      then consider "i = a" | "a + 1 \<le> i \<and> i < m" by linarith
      then show "\<not> stops_run exec i" using False m(4) by cases auto
    qed
    have run: "run_blocks exec sync (map block [a..b]) s = R"
      by (simp add: l rb R_def)
    have fin: "if stops_run exec m
        then fst R = Some (halt_of (exec m)) \<and>
             progress_file (snd R) = (if m = a then progress_file s else Some m)
        else m = b \<and> fst R = None \<and> progress_file (snd R) = Some (b + 1)"
    proof (cases "stops_run exec m")
      case True
      with m(5) have "fst R = Some (halt_of (exec m))"
        and "progress_file (snd R) = (if m = a + 1 then progress_file ?s else Some m)" by simp_all
      moreover have "(if m = a + 1 then progress_file ?s else Some m) = Some m"
        by (simp add: pf)
      moreover have "m \<noteq> a" using m(1) by simp
      ultimately show ?thesis using True by simp
    next
      case False
      with m(5) show ?thesis by simp
    qed
    show ?thesis
      using m(1,2,3) nostop fin by (intro exI[of _ m]) (simp add: run ex am)
  qed
qed

text \<open>The whole run, from whatever step the loaded progress names.\<close>

lemma run_mac_setup_core:
  assumes "current_step (load_progress s) \<le> 15"
  defines "a \<equiv> max 1 (current_step (load_progress s))"
  shows "\<exists>m r. a \<le> m \<and> m \<le> 15 \<and> run_mac_setup exec sync s = r \<and>
       executed (snd r) = executed s @ [a..m] \<and>
       (\<forall>i. a \<le> i \<and> i < m \<longrightarrow> \<not> stops_run exec i) \<and>
       (if stops_run exec m
        then fst r = (False, Some (halt_of (exec m))) \<and>
             progress_file (snd r) = (if m = a then progress_file s else Some m)
        else m = 15 \<and> fst r = (True, None) \<and> progress_file (snd r) = None)"
proof -
  let ?s = "load_progress s"
  have ex: "executed ?s = executed s" and pf: "progress_file ?s = progress_file s"
    by (simp_all add: load_progress_def split: option.splits)
  have a: "1 \<le> a" "a \<le> 15" "current_step ?s \<le> a" using assms by auto
  have split: "mac_steps = map block [1..a - 1] @ map block [a..15]"
    using a(1,2) upto_split1[of 1 a 15] by (simp add: mac_steps_upto)
  have skip: "run_blocks exec sync (map block [1..a - 1]) ?s = (None, ?s)"
  proof (rule run_blocks_skip, rule ballI)
    fix b assume "b \<in> set (map block [1..a - 1])"
    then obtain i where "b = block i" "1 \<le> i" "i \<le> a - 1" by auto
    then show "fst b < current_step ?s" using a_def by (simp add: block_def)
  qed
  have rb: "run_blocks exec sync mac_steps ?s = run_blocks exec sync (map block [a..15]) ?s"
    by (simp add: split run_blocks_append skip)
  from run_blocks_from[OF a(3) a(2), where exec=exec and sync=sync] obtain m r where m:
    "a \<le> m" "m \<le> 15" "run_blocks exec sync (map block [a..15]) ?s = r"
    "executed (snd r) = executed ?s @ [a..m]"
    "\<forall>i. a \<le> i \<and> i < m \<longrightarrow> \<not> stops_run exec i"
    "if stops_run exec m
        then fst r = Some (halt_of (exec m)) \<and>
             progress_file (snd r) = (if m = a then progress_file ?s else Some m)
        else m = 15 \<and> fst r = None \<and> progress_file (snd r) = Some (15 + 1)" by blast
  have r: "run_mac_setup exec sync s =
     (case r of
        (None, s') \<Rightarrow>
          ((True, None), cleanup_progress (s'\<lparr>printed := printed s' @ [Msg Success ''Suna Mac Setup Complete!'']\<rparr>))
      | (Some h, s') \<Rightarrow> ((False, Some h), s'\<lparr>printed := printed s' @ halt_output h (last (executed s'))\<rparr>))"
    by (simp add: run_mac_setup_def rb m(3))
  show ?thesis
  proof (cases r)
    case (Pair h s')
    show ?thesis
      using m(1,2,4,5,6) by (intro exI[of _ m]) (auto simp: r Pair ex pf cleanup_progress_def split: if_splits)
  qed
qed


lemma run_mac_setup_shape:
  assumes "current_step (load_progress s) \<le> 15"
  shows "\<exists>m. max 1 (current_step (load_progress s)) \<le> m \<and> m \<le> 15 \<and>
       executed (snd (run_mac_setup exec sync s)) = executed s @ [max 1 (current_step (load_progress s))..m] \<and>
       (\<forall>i. max 1 (current_step (load_progress s)) \<le> i \<and> i < m \<longrightarrow> \<not> stops_run exec i) \<and>
       (if stops_run exec m
        then fst (run_mac_setup exec sync s) = (False, Some (halt_of (exec m))) \<and>
             progress_file (snd (run_mac_setup exec sync s)) =
               (if m = max 1 (current_step (load_progress s)) then progress_file s else Some m)
        else m = 15 \<and> fst (run_mac_setup exec sync s) = (True, None) \<and>
             progress_file (snd (run_mac_setup exec sync s)) = None)"
  using run_mac_setup_core[OF assms, of exec sync] by blast




text \<open>
  Claim C1. For every \<open>k\<close> from 1 to 15: when the progress file names step \<open>k\<close> at the
  start, the run invokes the executors of the steps \<open>k, k + 1, ..., m\<close> in this order
  and no other, where \<open>m\<close> is the first step from \<open>k\<close> on that stops the run, or 15
  when none does. No step below \<open>k\<close> is invoked, and every step from \<open>k\<close> up to the
  first failure is.
\<close>

theorem resume_runs_remaining_steps:
  assumes "1 \<le> k" and "k \<le> 15" and "progress_file s = Some k"
  shows "\<exists>m. k \<le> m \<and> m \<le> 15 \<and>
           executed (snd (run_mac_setup exec sync s)) = executed s @ [k..m] \<and>
           (\<forall>i. k \<le> i \<and> i < m \<longrightarrow> \<not> stops_run exec i) \<and>
           (m < 15 \<longrightarrow> stops_run exec m)"
proof -
  have cs: "current_step (load_progress s) = k"
    using assms(3) by (simp add: load_progress_def)
  have a: "max 1 (current_step (load_progress s)) = k" using assms(1) cs by simp
  have le: "current_step (load_progress s) \<le> 15" using cs assms(2) by simp
  from run_mac_setup_shape[OF le, of exec sync, unfolded a] obtain m where m:
    "k \<le> m" "m \<le> 15" "executed (snd (run_mac_setup exec sync s)) = executed s @ [k..m]"
    "\<forall>i. k \<le> i \<and> i < m \<longrightarrow> \<not> stops_run exec i"
    and fin: "if stops_run exec m
        then fst (run_mac_setup exec sync s) = (False, Some (halt_of (exec m))) \<and>
             progress_file (snd (run_mac_setup exec sync s)) =
               (if m = k then progress_file s else Some m)
        else m = 15 \<and> fst (run_mac_setup exec sync s) = (True, None) \<and>
             progress_file (snd (run_mac_setup exec sync s)) = None"
    by blast
  have "m < 15 \<longrightarrow> stops_run exec m"
  proof (cases "stops_run exec m")
    case True then show ?thesis by simp
  next
    case False with fin have "m = 15" by simp
    then show ?thesis by simp
  qed
  with m show ?thesis by blast
qed

text \<open>Resuming at step 5 with executors that all succeed runs the steps 5 to 15.\<close>

theorem resume_runs_remaining_steps_witness:
  "(1::int) \<le> 5 \<and> (5::int) \<le> 15 \<and> progress_file (resumed 5) = Some 5 \<and>
   executed (snd (run_mac_setup all_succeed False (resumed 5))) = [5, 6, 7, 8, 9, 10, 11, 12, 13, 14, 15]"
proof -
  have p: "progress_file (resumed 5) = Some 5" by (simp add: resumed_def)
  from resume_runs_remaining_steps[of 5 "resumed 5" all_succeed False, OF _ _ p] obtain m where m:
    "5 \<le> m" "m \<le> 15"
    "executed (snd (run_mac_setup all_succeed False (resumed 5))) = executed (resumed 5) @ [5..m]"
    "m < 15 \<longrightarrow> stops_run all_succeed m" by auto
  have "\<not> stops_run all_succeed m" by (simp add: stops_run_def all_succeed_def)
  with m(2,4) have "m = 15" by auto
  with m(3) p show ?thesis by (simp add: resumed_def upto_rec1)
qed



section \<open>Properties of the service manager and of the connectivity test\<close>

lemma subprocess_run_missing:
  "run_proc W tr cmd = Binary_missing \<Longrightarrow>
   subprocess_run W check cmd tr = (Inl FileNotFoundError, tr @ [Proc cmd])"
  by (simp add: subprocess_run_def)

lemma subprocess_run_ok:
  "run_proc W tr cmd = Exited 0 out \<Longrightarrow> subprocess_run W check cmd tr = (Inr out, tr @ [Proc cmd])"
  by (simp add: subprocess_run_def)

lemma subprocess_run_nonzero:
  "run_proc W tr cmd = Exited c out \<Longrightarrow> c \<noteq> 0 \<Longrightarrow>
   subprocess_run W True cmd tr = (Inl (CalledProcessError c), tr @ [Proc cmd])"
  by (simp add: subprocess_run_def)

lemma check_service_health_procs:
  "filter is_proc (snd (check_service_health W tr)) = filter is_proc tr"
  by (simp add: check_service_health_def health_services_def probe_health_def is_proc_def
        split: http_outcome.splits)

lemma probe_connectivity_count:
  "fst (probe_connectivity W (service, url) (n, tr)) = (if urlopen W tr url = Responded 200 then n + 1 else n)"
  by (simp add: probe_connectivity_def split: http_outcome.splits)

text \<open>
  Claim C10. The connectivity test passes exactly when at least one of the three probed
  endpoints (frontend, backend \<^verbatim>\<open>/health\<close>, backend \<^verbatim>\<open>/api\<close>) answers with status
  200; it does not need all of them. Each URL is requested once, so the answers are
  given as a function \<open>net\<close> of the URL.
\<close>

theorem connectivity_passes_iff_any_200:
  "fst (test_service_connectivity (W\<lparr>urlopen := \<lambda>tr. net\<rparr>) tr) =
     (net ''http://localhost:3000'' = Responded 200 \<or>
      net ''http://localhost:8000/health'' = Responded 200 \<or>
      net ''http://localhost:8000/api'' = Responded 200)"
proof -
  let ?W = "W\<lparr>urlopen := \<lambda>tr. net\<rparr>"
  obtain n1 t1 where p1: "probe_connectivity ?W (''Frontend'', ''http://localhost:3000'') (0, tr) = (n1, t1)"
    by (cases "probe_connectivity ?W (''Frontend'', ''http://localhost:3000'') (0, tr)")
  obtain n2 t2 where p2: "probe_connectivity ?W (''Backend Health'', ''http://localhost:8000/health'') (n1, t1) = (n2, t2)"
    by (cases "probe_connectivity ?W (''Backend Health'', ''http://localhost:8000/health'') (n1, t1)")
  obtain n3 t3 where p3: "probe_connectivity ?W (''Backend API'', ''http://localhost:8000/api'') (n2, t2) = (n3, t3)"
    by (cases "probe_connectivity ?W (''Backend API'', ''http://localhost:8000/api'') (n2, t2)")
  have n1: "n1 = (if net ''http://localhost:3000'' = Responded 200 then 1 else 0)"
    using probe_connectivity_count[of ?W "''Frontend''" "''http://localhost:3000''" 0 tr] p1 by simp
  have n2: "n2 = (if net ''http://localhost:8000/health'' = Responded 200 then n1 + 1 else n1)"
    using probe_connectivity_count[of ?W "''Backend Health''" "''http://localhost:8000/health''" n1 t1] p2 by simp
  have n3: "n3 = (if net ''http://localhost:8000/api'' = Responded 200 then n2 + 1 else n2)"
    using probe_connectivity_count[of ?W "''Backend API''" "''http://localhost:8000/api''" n2 t2] p3 by simp
  have "test_service_connectivity ?W tr = (0 < n3, t3)"
    by (simp add: test_service_connectivity_def connectivity_services_def p1 p2 p3)
  then show ?thesis using n1 n2 n3 by auto
qed

lemma stop_services_eq:
  "stop_services W cf tr =
     (let t = tr @ [Msg Info ''Stopping Suna services...'']; down = compose cf [''down''] in
      case run_proc W t down of
        Binary_missing \<Rightarrow> (Inl FileNotFoundError, t @ [Proc down])
      | Exited c out \<Rightarrow>
          if c = 0 then (Inr True, t @ [Proc down, Msg Success ''Services stopped successfully''])
          else (Inr False, t @ [Proc down, Msg Error ''Failed to stop services'']))"
  by (simp add: stop_services_def subprocess_run_def Let_def split: proc_outcome.splits)

lemma start_services_procs:
  "filter is_proc (snd (start_services W cf tr)) = filter is_proc tr @
     (let pull = compose cf [''pull'']; up = compose cf [''up'', ''-d''];
          t = tr @ [Msg Info ''Starting Suna services...'', Msg Info ''Pulling latest images...'']
      in case run_proc W t pull of
           Binary_missing \<Rightarrow> [Proc pull]
         | Exited c out \<Rightarrow> if c = 0 then [Proc pull, Proc up] else [Proc pull])"
proof -
  let ?pull = "compose cf [''pull'']" and ?up = "compose cf [''up'', ''-d'']"
  let ?t = "tr @ [Msg Info ''Starting Suna services...'', Msg Info ''Pulling latest images...'']"
  show ?thesis
  proof (cases "run_proc W ?t ?pull")
    case Binary_missing
    then show ?thesis
      by (simp add: start_services_def subprocess_run_missing is_proc_def)
  next
    case (Exited c out)
    show ?thesis
    proof (cases "c = 0")
      case False
      with Exited show ?thesis
        by (simp add: start_services_def subprocess_run_nonzero is_proc_def)
    next
      case True
      let ?t2 = "?t @ [Proc ?pull, Msg Info ''Starting containers...'']"
      from True Exited have pull: "subprocess_run W True ?pull ?t = (Inr out, ?t @ [Proc ?pull])"
        by (simp add: subprocess_run_ok)
      show ?thesis
      proof (cases "run_proc W ?t2 ?up")
        case Binary_missing
        then have "subprocess_run W True ?up ?t2 = (Inl FileNotFoundError, ?t2 @ [Proc ?up])"
          by (rule subprocess_run_missing)
        with pull Exited True show ?thesis
          by (simp add: start_services_def is_proc_def)
      next
        case (Exited c' out')
        show ?thesis
        proof (cases "c' = 0")
          case False
          with Exited have "subprocess_run W True ?up ?t2 = (Inl (CalledProcessError c'), ?t2 @ [Proc ?up])"
            by (simp add: subprocess_run_nonzero)
          with pull \<open>run_proc W ?t ?pull = Exited c out\<close> True show ?thesis
            by (simp add: start_services_def is_proc_def)
        next
          case c0: True
          with Exited have up: "subprocess_run W True ?up ?t2 = (Inr out', ?t2 @ [Proc ?up])"
            by (simp add: subprocess_run_ok)
          let ?t3 = "?t2 @ [Proc ?up, Msg Success ''Services started successfully'',
                               Msg Info ''Waiting for services to be ready...'', Sleep 10]"
          have h: "filter is_proc (snd (check_service_health W ?t3)) = filter is_proc ?t3"
            by (rule check_service_health_procs)
          obtain t4 where f: "check_service_health W ?t3 = (Inr (), t4)"
            by (simp add: check_service_health_def)
          have "start_services W cf tr = (Inr True, t4)"
            using pull up f by (simp add: start_services_def)
          with h f \<open>run_proc W ?t ?pull = Exited c out\<close> True show ?thesis
            by (simp add: is_proc_def)
        qed
      qed
    qed
  qed
qed


text \<open>
  Claim C3, as amended. \<^verbatim>\<open>restart_services\<close> first invokes
  \<^verbatim>\<open>docker compose down\<close>. Only when that exits with 0 does it go on to
  \<^verbatim>\<open>start_services\<close>, which invokes \<^verbatim>\<open>docker compose pull\<close> and then, only when the
  pull exits with 0, \<^verbatim>\<open>docker compose up -d\<close>. So a restart makes one, two or three
  subprocess invocations, and none of the start when the stop fails.
\<close>

theorem restart_invocations:
  "filter is_proc (snd (restart_services W cf tr)) = filter is_proc tr @
     (let down = compose cf [''down'']; pull = compose cf [''pull'']; up = compose cf [''up'', ''-d''];
          t1 = tr @ [Msg Info ''Restarting Suna services...'', Msg Info ''Stopping Suna services...''];
          t2 = t1 @ [Proc down, Msg Success ''Services stopped successfully'', Sleep 2,
                     Msg Info ''Starting Suna services...'', Msg Info ''Pulling latest images...'']
      in case run_proc W t1 down of
           Binary_missing \<Rightarrow> [Proc down]
         | Exited c out \<Rightarrow>
             if c = 0
             then (case run_proc W t2 pull of
                     Binary_missing \<Rightarrow> [Proc down, Proc pull]
                   | Exited c' out' \<Rightarrow> if c' = 0 then [Proc down, Proc pull, Proc up] else [Proc down, Proc pull])
             else [Proc down])"
proof -
  let ?down = "compose cf [''down'']"
  let ?t0 = "tr @ [Msg Info ''Restarting Suna services...'']"
  let ?t1 = "tr @ [Msg Info ''Restarting Suna services...'', Msg Info ''Stopping Suna services...'']"
  have stop: "stop_services W cf ?t0 =
      (case run_proc W ?t1 ?down of
        Binary_missing \<Rightarrow> (Inl FileNotFoundError, ?t1 @ [Proc ?down])
      | Exited c out \<Rightarrow>
          if c = 0 then (Inr True, ?t1 @ [Proc ?down, Msg Success ''Services stopped successfully''])
          else (Inr False, ?t1 @ [Proc ?down, Msg Error ''Failed to stop services'']))"
    by (simp add: stop_services_eq Let_def)
  show ?thesis
  proof (cases "run_proc W ?t1 ?down")
    case Binary_missing
    then show ?thesis by (simp add: restart_services_def stop is_proc_def)
  next
    case (Exited c out)
    show ?thesis
    proof (cases "c = 0")
      case False
      with Exited show ?thesis by (simp add: restart_services_def stop is_proc_def)
    next
      case True
      let ?t = "?t1 @ [Proc ?down, Msg Success ''Services stopped successfully'', Sleep 2]"
      have "restart_services W cf tr = start_services W cf ?t"
        using Exited True by (simp add: restart_services_def stop)
      then show ?thesis
        using Exited True start_services_procs[of W cf ?t]
        by (simp add: is_proc_def Let_def split: proc_outcome.splits)
    qed
  qed
qed

lemma subprocess_run_raises:
  "subprocess_run W check cmd tr = (Inl e, tr') \<Longrightarrow> e = FileNotFoundError \<or> (\<exists>c. e = CalledProcessError c)"
  by (auto simp: subprocess_run_def split: proc_outcome.splits if_splits)

lemma wait_for_docker_raises:
  "wait_for_docker W n tr = (Inl e, tr') \<Longrightarrow> e = FileNotFoundError"
proof (induction n arbitrary: tr)
  case 0
  then show ?case by simp
next
  case (Suc n)
  obtain r t where sr: "subprocess_run W True docker_info tr = (r, t)"
    by (cases "subprocess_run W True docker_info tr")
  show ?case
  proof (cases r)
    case (Inr out)
    with Suc.prems sr show ?thesis by simp
  next
    case (Inl x)
    with sr subprocess_run_raises[of W True docker_info tr x t]
    consider "x = FileNotFoundError" | c where "x = CalledProcessError c" by auto
    then show ?thesis
    proof cases
      case 1
      with Suc.prems sr Inl show ?thesis by simp
    next
      case 2
      with Suc.prems sr Inl have "wait_for_docker W n (t @ [Sleep 2, Msg Plain ''.'']) = (Inl e, tr')" by simp
      then show ?thesis by (rule Suc.IH)
    qed
  qed
qed

lemma ensure_docker_raises:
  assumes "ensure_docker W tr = (Inl e, tr')"
  shows "e = FileNotFoundError"
proof -
  let ?t0 = "tr @ [Msg Info ''Checking prerequisites...'']"
  obtain r t where sr: "subprocess_run W True docker_info ?t0 = (r, t)"
    by (cases "subprocess_run W True docker_info ?t0")
  show ?thesis
  proof (cases r)
    case (Inr out)
    with assms sr show ?thesis by (simp add: ensure_docker_def)
  next
    case r: (Inl x)
    with sr subprocess_run_raises[of W True docker_info ?t0 x t]
    consider "x = FileNotFoundError" | c where "x = CalledProcessError c" by auto
    then show ?thesis
    proof cases
      case 1
      with assms sr r show ?thesis by (simp add: ensure_docker_def)
    next
      case x: 2
      let ?t1 = "t @ [Msg Error ''Docker Desktop is not running'', Msg Info ''Starting Docker Desktop...'']"
      obtain r2 t2 where so: "subprocess_run W True [''open'', ''/Applications/Docker.app''] ?t1 = (r2, t2)"
        by (cases "subprocess_run W True [''open'', ''/Applications/Docker.app''] ?t1")
      show ?thesis
      proof (cases r2)
        case r2: (Inr out)
        let ?t3 = "t2 @ [Msg Info ''Waiting for Docker Desktop to start...'']"
        obtain r3 t3 where w: "wait_for_docker W 30 ?t3 = (r3, t3)"
          by (cases "wait_for_docker W 30 ?t3")
        show ?thesis
        proof (cases r3)
          case r3: (Inl y)
          with w have "y = FileNotFoundError" using wait_for_docker_raises by blast
          moreover from assms sr r x so r2 w r3 have "e = y"
            by (simp add: ensure_docker_def)
          ultimately show ?thesis by simp
        next
          case r3: (Inr b)
          with assms sr r x so r2 w show ?thesis
            by (cases b) (simp_all add: ensure_docker_def)
        qed
      next
        case r2: (Inl y)
        with so subprocess_run_raises[of W True _ ?t1 y t2]
        consider "y = FileNotFoundError" | c' where "y = CalledProcessError c'" by auto
        then show ?thesis
        proof cases
          case 1
          with assms sr r x so r2 show ?thesis by (simp add: ensure_docker_def)
        next
          case 2
          with assms sr r x so r2 show ?thesis by (simp add: ensure_docker_def)
        qed
      qed
    qed
  qed
qed

lemma check_prerequisites_raises:
  assumes "check_prerequisites W cf tr = (Inl e, tr')"
  shows "e = FileNotFoundError"
proof -
  obtain r t where ed: "ensure_docker W tr = (r, t)" by (cases "ensure_docker W tr")
  show ?thesis
  proof (cases r)
    case (Inl x)
    with ed have "x = FileNotFoundError" using ensure_docker_raises by blast
    moreover from assms ed Inl have "e = x" by (simp add: check_prerequisites_def)
    ultimately show ?thesis by simp
  next
    case (Inr b)
    with assms ed show ?thesis
      by (cases b) (simp_all add: check_prerequisites_def Let_def split: if_splits)
  qed
qed

lemma check_prerequisites_False:
  assumes "check_prerequisites W cf tr = (Inr (False, cf'), tr')"
  shows "\<exists>m. Msg Error m \<in> set tr'"
proof -
  obtain r t where ed: "ensure_docker W tr = (r, t)" by (cases "ensure_docker W tr")
  show ?thesis
  proof (cases r)
    case (Inl x)
    with assms ed show ?thesis by (simp add: check_prerequisites_def)
  next
    case (Inr b)
    show ?thesis
    proof (cases b)
      case True
      with assms ed Inr show ?thesis
        by (auto simp: check_prerequisites_def Let_def split: if_splits)
    next
      case False
      with assms ed Inr have t: "tr' = t" by (simp add: check_prerequisites_def)
      from ed Inr False have "\<exists>m. Msg Error m \<in> set t"
        by (auto simp: ensure_docker_def split: prod.splits sum.splits exn.splits bool.splits)
      with t show ?thesis by simp
    qed
  qed
qed

lemma detect_apple_silicon_trace:
  "\<exists>b. detect_apple_silicon W tr = (Inr b, tr @ [Proc [''uname'', ''-m'']])"
  by (auto simp: detect_apple_silicon_def subprocess_run_def split: proc_outcome.splits)

lemma dispatch_unknown:
  "command \<notin> set known_commands \<Longrightarrow>
   dispatch W cf command argv tr =
     (Inl (SystemExit 1),
      tr @ [Msg Error (''Unknown command: '' @ command),
            Msg Info ''Use python start_mac.py help for available commands''])"
  by (simp add: dispatch_def known_commands_def)

lemma dispatch_start:
  "dispatch W cf ''start'' argv =
     or_exit (start_services W cf)
       [Msg Success ''Suna is now running!'', Msg Info ''Frontend: http://localhost:3000'',
        Msg Info ''Backend: http://localhost:8000'',
        Msg Info ''Use python start_mac.py stop to stop services'']"
  by (simp add: dispatch_def)

lemma main_default: "main W [prog] tr = main W [prog, ''start''] tr"
proof (cases "platform_system W = ''Darwin''")
  case False
  then show ?thesis by (simp add: main_def)
next
  case True
  obtain b where d: "detect_apple_silicon W tr = (Inr b, tr @ [Proc [''uname'', ''-m'']])"
    using detect_apple_silicon_trace by blast
  let ?t1 = "tr @ [Proc [''uname'', ''-m''], Msg Plain ''Mac Service Manager'']"
  obtain r t2 where cp: "check_prerequisites W ''docker-compose.mac.yaml'' ?t1 = (r, t2)"
    by (cases "check_prerequisites W ''docker-compose.mac.yaml'' ?t1")
  show ?thesis
  proof (cases r)
    case (Inl e)
    with True d cp show ?thesis by (simp add: main_def print_banner_def)
  next
    case (Inr p)
    obtain ok cf where p: "p = (ok, cf)" by (cases p)
    with True d cp Inr show ?thesis
      by (cases ok) (simp_all add: main_def print_banner_def dispatch_start)
  qed
qed

lemma main_help:
  assumes "platform_system W = ''Darwin''"
  shows "main W [prog, ''help''] tr =
           (Inr (), tr @ [Proc [''uname'', ''-m''], Msg Plain ''Usage: python start_mac.py [command]''])"
proof -
  obtain b where "detect_apple_silicon W tr = (Inr b, tr @ [Proc [''uname'', ''-m'']])"
    using detect_apple_silicon_trace by blast
  then show ?thesis using assms by (simp add: main_def show_help_def)
qed

lemma main_unknown:
  assumes "platform_system W = ''Darwin''" and "command \<notin> set known_commands"
  shows "fst (main W (prog # command # rest) tr) = Inl FileNotFoundError \<or>
         fst (main W (prog # command # rest) tr) = Inl (SystemExit 1) \<and>
         (\<exists>m. Msg Error m \<in> set (snd (main W (prog # command # rest) tr)))"
proof -
  obtain b where d: "detect_apple_silicon W tr = (Inr b, tr @ [Proc [''uname'', ''-m'']])"
    using detect_apple_silicon_trace by blast
  let ?t1 = "tr @ [Proc [''uname'', ''-m''], Msg Plain ''Mac Service Manager'']"
  from assms(2) have ne: "command \<noteq> ''help''" "command \<noteq> ''info''"
    by (auto simp: known_commands_def)
  obtain r t2 where cp: "check_prerequisites W ''docker-compose.mac.yaml'' ?t1 = (r, t2)"
    by (cases "check_prerequisites W ''docker-compose.mac.yaml'' ?t1")
  have m: "main W (prog # command # rest) tr =
      (case r of
         Inl e \<Rightarrow> (Inl e, t2)
       | Inr (False, compose_file) \<Rightarrow>
           (Inl (SystemExit 1), t2 @ [Msg Error ''Prerequisites not met. Please fix the issues above.''])
       | Inr (True, compose_file) \<Rightarrow> dispatch W compose_file command (prog # command # rest) t2)"
    using assms(1) d ne cp by (simp add: main_def print_banner_def)
  show ?thesis
  proof (cases r)
    case (Inl e)
    with cp have "e = FileNotFoundError" using check_prerequisites_raises by blast
    with m Inl show ?thesis by simp
  next
    case (Inr p)
    obtain ok cf where p: "p = (ok, cf)" by (cases p)
    show ?thesis
    proof (cases ok)
      case True
      with m Inr p show ?thesis
        by (auto simp: dispatch_unknown[OF assms(2)])
    next
      case False
      with m Inr p show ?thesis by auto
    qed
  qed
qed


text \<open>
  Claim C3 as stated fails: on a machine where every command succeeds a restart makes
  three subprocess invocations, not two.
\<close>

theorem restart_makes_three_invocations:
  "filter is_proc (snd (restart_services all_up ''docker-compose.mac.yaml'' [])) =
     [Proc [''docker'', ''compose'', ''-f'', ''docker-compose.mac.yaml'', ''down''],
      Proc [''docker'', ''compose'', ''-f'', ''docker-compose.mac.yaml'', ''pull''],
      Proc [''docker'', ''compose'', ''-f'', ''docker-compose.mac.yaml'', ''up'', ''-d'']] \<and>
   length (filter is_proc (snd (restart_services all_up ''docker-compose.mac.yaml'' []))) \<noteq> 2"
  by (simp add: restart_services_def stop_services_def start_services_def subprocess_run_def
        check_service_health_def health_services_def probe_health_def all_up_def is_proc_def compose_def)

text \<open>
  Claim C5. The claim says that a missing binary is reported as a classification and
  that \<^verbatim>\<open>start\<close> on a machine without Docker exits with code 1 and a message, not
  with an uncaught exception. In the code \<^verbatim>\<open>check_prerequisites\<close> catches
  \<^verbatim>\<open>CalledProcessError\<close> only. Evaluated on a Mac without the \<^verbatim>\<open>docker\<close> binary:
  \<^verbatim>\<open>FileNotFoundError\<close> leaves \<^verbatim>\<open>main\<close>, no error message has been printed, and the
  same happens when no command is given.
\<close>

theorem start_without_docker_raises:
  "main no_docker [''start_mac.py'', ''start''] [] =
     (Inl FileNotFoundError,
      [Proc [''uname'', ''-m''], Msg Plain ''Mac Service Manager'',
       Msg Info ''Checking prerequisites...'', Proc [''docker'', ''info'']]) \<and>
   main no_docker [''start_mac.py''] [] = main no_docker [''start_mac.py'', ''start''] []"
  by (simp add: main_def no_docker_def detect_apple_silicon_def subprocess_run_def print_banner_def
        check_prerequisites_def ensure_docker_def docker_info_def strip_def dispatch_start)

lemma main_not_mac:
  "platform_system W \<noteq> ''Darwin'' \<Longrightarrow>
   main W argv tr =
     (Inl (SystemExit 1),
      tr @ [Msg Error ''This script is designed for macOS only.'',
            Msg Info ''For other platforms, use: python start.py''])"
  by (simp add: main_def)

text \<open>
  Claim C9, as amended. Without a positional argument \<^verbatim>\<open>main\<close> behaves as with
  \<^verbatim>\<open>start\<close>. On macOS, \<^verbatim>\<open>help\<close> prints the usage and returns (exit status 0) after
  the constructor's \<^verbatim>\<open>uname -m\<close>, with no prerequisite check; a command that is not
  known ends with exit status 1, and it has printed an error and left through
  \<^verbatim>\<open>sys.exit(1)\<close> unless \<^verbatim>\<open>FileNotFoundError\<close> escaped from the prerequisite check,
  which runs first. On every other platform every invocation, whatever its arguments,
  prints the macOS-only error and exits with status 1.
\<close>

theorem cli_dispatch:
  "main W [prog] [] = main W [prog, ''start''] [] \<and>
   (platform_system W = ''Darwin'' \<longrightarrow>
      main W [prog, ''help''] [] =
        (Inr (), [Proc [''uname'', ''-m''], Msg Plain ''Usage: python start_mac.py [command]'']) \<and>
      exit_status (fst (main W [prog, ''help''] [])) = 0 \<and>
      (command \<notin> set known_commands \<longrightarrow>
         exit_status (fst (main W (prog # command # rest) [])) = 1 \<and>
         (fst (main W (prog # command # rest) []) \<noteq> Inl FileNotFoundError \<longrightarrow>
            fst (main W (prog # command # rest) []) = Inl (SystemExit 1) \<and>
            (\<exists>m. Msg Error m \<in> set (snd (main W (prog # command # rest) [])))))) \<and>
   (platform_system W \<noteq> ''Darwin'' \<longrightarrow>
      main W argv [] =
        (Inl (SystemExit 1),
         [Msg Error ''This script is designed for macOS only.'',
          Msg Info ''For other platforms, use: python start.py'']) \<and>
      exit_status (fst (main W argv [])) = 1)"
proof -
  have d: "main W [prog] [] = main W [prog, ''start''] []"
    by (rule main_default)
  have mac: "platform_system W = ''Darwin'' \<longrightarrow>
      main W [prog, ''help''] [] =
        (Inr (), [Proc [''uname'', ''-m''], Msg Plain ''Usage: python start_mac.py [command]'']) \<and>
      exit_status (fst (main W [prog, ''help''] [])) = 0 \<and>
      (command \<notin> set known_commands \<longrightarrow>
         exit_status (fst (main W (prog # command # rest) [])) = 1 \<and>
         (fst (main W (prog # command # rest) []) \<noteq> Inl FileNotFoundError \<longrightarrow>
            fst (main W (prog # command # rest) []) = Inl (SystemExit 1) \<and>
            (\<exists>m. Msg Error m \<in> set (snd (main W (prog # command # rest) [])))))"
  proof
    assume darwin: "platform_system W = ''Darwin''"
    have h: "main W [prog, ''help''] [] =
           (Inr (), [Proc [''uname'', ''-m''], Msg Plain ''Usage: python start_mac.py [command]''])"
      using main_help[OF darwin, of prog "[]"] by simp
    then have h0: "exit_status (fst (main W [prog, ''help''] [])) = 0"
      by (simp add: exit_status_def)
    have u: "command \<notin> set known_commands \<longrightarrow>
         exit_status (fst (main W (prog # command # rest) [])) = 1 \<and>
         (fst (main W (prog # command # rest) []) \<noteq> Inl FileNotFoundError \<longrightarrow>
            fst (main W (prog # command # rest) []) = Inl (SystemExit 1) \<and>
            (\<exists>m. Msg Error m \<in> set (snd (main W (prog # command # rest) []))))"
    proof
      assume c: "command \<notin> set known_commands"
      from main_unknown[OF darwin c, of prog rest "[]"]
      consider "fst (main W (prog # command # rest) []) = Inl FileNotFoundError"
        | "fst (main W (prog # command # rest) []) = Inl (SystemExit 1)"
          "\<exists>m. Msg Error m \<in> set (snd (main W (prog # command # rest) []))"
        by blast
      then show "exit_status (fst (main W (prog # command # rest) [])) = 1 \<and>
         (fst (main W (prog # command # rest) []) \<noteq> Inl FileNotFoundError \<longrightarrow>
            fst (main W (prog # command # rest) []) = Inl (SystemExit 1) \<and>
            (\<exists>m. Msg Error m \<in> set (snd (main W (prog # command # rest) []))))"
      proof cases
        case 1
        then show ?thesis by (simp add: exit_status_def)
      next
        case 2
        then show ?thesis by (simp add: exit_status_def)
      qed
    qed
    from h h0 u show "main W [prog, ''help''] [] =
        (Inr (), [Proc [''uname'', ''-m''], Msg Plain ''Usage: python start_mac.py [command]'']) \<and>
      exit_status (fst (main W [prog, ''help''] [])) = 0 \<and>
      (command \<notin> set known_commands \<longrightarrow>
         exit_status (fst (main W (prog # command # rest) [])) = 1 \<and>
         (fst (main W (prog # command # rest) []) \<noteq> Inl FileNotFoundError \<longrightarrow>
            fst (main W (prog # command # rest) []) = Inl (SystemExit 1) \<and>
            (\<exists>m. Msg Error m \<in> set (snd (main W (prog # command # rest) [])))))"
      by blast
  qed
  have other: "platform_system W \<noteq> ''Darwin'' \<longrightarrow>
      main W argv [] =
        (Inl (SystemExit 1),
         [Msg Error ''This script is designed for macOS only.'',
          Msg Info ''For other platforms, use: python start.py'']) \<and>
      exit_status (fst (main W argv [])) = 1"
  proof
    assume "platform_system W \<noteq> ''Darwin''"
    from main_not_mac[OF this, of argv "[]"] show "main W argv [] =
        (Inl (SystemExit 1),
         [Msg Error ''This script is designed for macOS only.'',
          Msg Info ''For other platforms, use: python start.py'']) \<and>
      exit_status (fst (main W argv [])) = 1"
      by (simp add: exit_status_def)
  qed
  from d mac other show ?thesis by blast
qed

text \<open>
  On the Mac where everything is up, \<^verbatim>\<open>bogus\<close> exits with 1 and \<^verbatim>\<open>help\<close> with 0; on
  the Linux machine \<^verbatim>\<open>status\<close> exits with 1.
\<close>

theorem cli_dispatch_witness:
  "platform_system all_up = ''Darwin'' \<and> ''bogus'' \<notin> set known_commands \<and>
   fst (main all_up [''start_mac.py'', ''bogus''] []) \<noteq> Inl FileNotFoundError \<and>
   fst (main all_up [''start_mac.py'', ''bogus''] []) = Inl (SystemExit 1) \<and>
   exit_status (fst (main all_up [''start_mac.py'', ''bogus''] [])) = 1 \<and>
   exit_status (fst (main all_up [''start_mac.py'', ''help''] [])) = 0 \<and>
   platform_system linux_box \<noteq> ''Darwin'' \<and>
   exit_status (fst (main linux_box [''start_mac.py'', ''status''] [])) = 1"
proof -
  have d: "platform_system all_up = ''Darwin''" by (simp add: all_up_def)
  have l: "platform_system linux_box \<noteq> ''Darwin''" by (simp add: linux_box_def all_up_def)
  have b: "''bogus'' \<notin> set known_commands" by (simp add: known_commands_def)
  have n: "fst (main all_up [''start_mac.py'', ''bogus''] []) \<noteq> Inl FileNotFoundError"
    by (simp add: main_def all_up_def detect_apple_silicon_def subprocess_run_def print_banner_def
          check_prerequisites_def ensure_docker_def docker_info_def strip_def dispatch_def)
  from cli_dispatch[of all_up "''start_mac.py''" "''bogus''" "[]" "[]"] b d n
  have m: "fst (main all_up [''start_mac.py'', ''bogus''] []) = Inl (SystemExit 1)"
    "exit_status (fst (main all_up [''start_mac.py'', ''bogus''] [])) = 1"
    "exit_status (fst (main all_up [''start_mac.py'', ''help''] [])) = 0" by blast+
  from cli_dispatch[of linux_box "''start_mac.py''" "''bogus''" "[]" "[''start_mac.py'', ''status'']"] l
  have "exit_status (fst (main linux_box [''start_mac.py'', ''status''] [])) = 1" by blast
  with d l b n m show ?thesis by blast
qed

text \<open>
  Claim C9 as stated fails: the macOS guard comes first, so on another platform
  \<^verbatim>\<open>help\<close> prints no usage and exits with status 1.
\<close>

theorem help_on_linux_exits_1:
  "main linux_box [''start_mac.py'', ''help''] [] =
     (Inl (SystemExit 1),
      [Msg Error ''This script is designed for macOS only.'',
       Msg Info ''For other platforms, use: python start.py'']) \<and>
   exit_status (fst (main linux_box [''start_mac.py'', ''help''] [])) = 1"
  by (simp add: main_def linux_box_def all_up_def exit_status_def)





section \<open>Properties of the health check and of the configuration files\<close>

lemma probe_health_events:
  "filter is_http (probe_health W (service, url) tr) = filter is_http tr @ [Http url]"
  "filter is_sleep (probe_health W (service, url) tr) = filter is_sleep tr"
  by (simp_all add: probe_health_def is_http_def is_sleep_def split: http_outcome.splits)

lemma setup_probe_health_events:
  "filter is_http (setup_probe_health W (service, url) tr) = filter is_http tr @ [Http url]"
  "filter is_sleep (setup_probe_health W (service, url) tr) = filter is_sleep tr"
  by (simp_all add: setup_probe_health_def is_http_def is_sleep_def split: http_outcome.splits)

text \<open>
  Claim C6, as amended. The health check, in the service manager and in the setup
  wizard, takes no list of services, no number of attempts and no interval: it requests
  each of its two fixed URLs exactly once, in order, and never sleeps; whatever the
  requests raise is caught, so it returns normally. A service is reported healthy when
  its one request returned a response and as not responding otherwise: the last two
  conjuncts give the whole output of either function, request by request.
\<close>

theorem health_check_is_one_pass:
  "fst (check_service_health W tr) = Inr () \<and>
   filter is_http (snd (check_service_health W tr)) =
     filter is_http tr @ [Http ''http://localhost:3000'', Http ''http://localhost:8000/health''] \<and>
   filter is_sleep (snd (check_service_health W tr)) = filter is_sleep tr \<and>
   fst (setup_check_service_health W tr) = Inr () \<and>
   filter is_http (snd (setup_check_service_health W tr)) =
     filter is_http tr @ [Http ''http://localhost:3000'', Http ''http://localhost:8000/health''] \<and>
   filter is_sleep (snd (setup_check_service_health W tr)) = filter is_sleep tr \<and>
   snd (check_service_health W tr) =
     (let t0 = tr @ [Msg Info ''Checking service health...''];
          t1 = t0 @ [Http ''http://localhost:3000'',
                     (case urlopen W t0 ''http://localhost:3000'' of
                        Responded code \<Rightarrow> Msg Success ''Frontend is healthy''
                      | URLError \<Rightarrow> Msg Warning ''Frontend is not responding''
                      | Other_exception \<Rightarrow> Msg Warning ''Frontend is not responding'')]
      in t1 @ [Http ''http://localhost:8000/health'',
               (case urlopen W t1 ''http://localhost:8000/health'' of
                  Responded code \<Rightarrow> Msg Success ''Backend is healthy''
                | URLError \<Rightarrow> Msg Warning ''Backend is not responding''
                | Other_exception \<Rightarrow> Msg Warning ''Backend is not responding'')]) \<and>
   snd (setup_check_service_health W tr) =
     (let t1 = tr @ [Http ''http://localhost:3000'',
                     (case urlopen W tr ''http://localhost:3000'' of
                        Responded code \<Rightarrow> Msg Success ''Frontend is healthy''
                      | URLError \<Rightarrow> Msg Warning ''Frontend is not responding yet''
                      | Other_exception \<Rightarrow> Msg Warning ''Frontend is not responding yet'')]
      in t1 @ [Http ''http://localhost:8000/health'',
               (case urlopen W t1 ''http://localhost:8000/health'' of
                  Responded code \<Rightarrow> Msg Success ''Backend is healthy''
                | URLError \<Rightarrow> Msg Warning ''Backend is not responding yet''
                | Other_exception \<Rightarrow> Msg Warning ''Backend is not responding yet'')])"
proof -
  have a: "fst (check_service_health W tr) = Inr ()" "fst (setup_check_service_health W tr) = Inr ()"
    by (simp_all add: check_service_health_def setup_check_service_health_def)
  have b: "filter is_http (snd (check_service_health W tr)) =
     filter is_http tr @ [Http ''http://localhost:3000'', Http ''http://localhost:8000/health'']"
    "filter is_sleep (snd (check_service_health W tr)) = filter is_sleep tr"
    by (simp_all add: check_service_health_def health_services_def probe_health_events is_http_def is_sleep_def)
  have c: "filter is_http (snd (setup_check_service_health W tr)) =
     filter is_http tr @ [Http ''http://localhost:3000'', Http ''http://localhost:8000/health'']"
    "filter is_sleep (snd (setup_check_service_health W tr)) = filter is_sleep tr"
    by (simp_all add: setup_check_service_health_def health_services_def setup_probe_health_events)
  have d: "snd (check_service_health W tr) =
     (let t0 = tr @ [Msg Info ''Checking service health...''];
          t1 = t0 @ [Http ''http://localhost:3000'',
                     (case urlopen W t0 ''http://localhost:3000'' of
                        Responded code \<Rightarrow> Msg Success ''Frontend is healthy''
                      | URLError \<Rightarrow> Msg Warning ''Frontend is not responding''
                      | Other_exception \<Rightarrow> Msg Warning ''Frontend is not responding'')]
      in t1 @ [Http ''http://localhost:8000/health'',
               (case urlopen W t1 ''http://localhost:8000/health'' of
                  Responded code \<Rightarrow> Msg Success ''Backend is healthy''
                | URLError \<Rightarrow> Msg Warning ''Backend is not responding''
                | Other_exception \<Rightarrow> Msg Warning ''Backend is not responding'')])"
    by (auto simp: check_service_health_def health_services_def probe_health_def Let_def
          split: http_outcome.splits)
  have e: "snd (setup_check_service_health W tr) =
     (let t1 = tr @ [Http ''http://localhost:3000'',
                     (case urlopen W tr ''http://localhost:3000'' of
                        Responded code \<Rightarrow> Msg Success ''Frontend is healthy''
                      | URLError \<Rightarrow> Msg Warning ''Frontend is not responding yet''
                      | Other_exception \<Rightarrow> Msg Warning ''Frontend is not responding yet'')]
      in t1 @ [Http ''http://localhost:8000/health'',
               (case urlopen W t1 ''http://localhost:8000/health'' of
                  Responded code \<Rightarrow> Msg Success ''Backend is healthy''
                | URLError \<Rightarrow> Msg Warning ''Backend is not responding yet''
                | Other_exception \<Rightarrow> Msg Warning ''Backend is not responding yet'')])"
    by (auto simp: setup_check_service_health_def health_services_def setup_probe_health_def Let_def
          split: http_outcome.splits)
  from a b c d e show ?thesis by blast
qed

text \<open>
  Claim C6 as stated fails. Against services that never answer, the poll of the
  specification with three attempts and an interval of 2 makes six requests and sleeps
  twice; the code's health check makes two requests and does not sleep: there is no
  second attempt.
\<close>

theorem health_check_does_not_retry:
  "length (filter is_http (snd (check_service_health no_docker []))) = 2 \<and>
   filter is_sleep (snd (check_service_health no_docker [])) = [] \<and>
   length (filter is_http (snd (spec_poll no_docker 3 2 health_services []))) = 6 \<and>
   filter is_sleep (snd (spec_poll no_docker 3 2 health_services [])) = [Sleep 2, Sleep 2]"
  by (simp add: check_service_health_def health_services_def probe_health_def spec_probe_def
        no_docker_def is_http_def is_sleep_def numeral_3_eq_3)

lemma configure_ops_shape:
  assumes "configure_mac_env_files s = (ops, None)"
  shows "\<exists>method backend frontend.
           setup_method s = Some method \<and> backend_env s method = Inr backend \<and>
           frontend_env s = Inr frontend \<and>
           ops = [Open_w ''backend/.env'', Write ''backend/.env'' (backend_env_content s method backend),
                  Open_w ''frontend/.env.local'', Write ''frontend/.env.local'' (frontend_env_content s frontend)]"
  using assms
  by (auto simp: configure_mac_env_files_def write_file_def Let_def split: option.splits sum.splits)

lemma run_two_writes:
  "run_ops [Open_w ''backend/.env'', Write ''backend/.env'' b,
            Open_w ''frontend/.env.local'', Write ''frontend/.env.local'' f] fs =
     fs(''backend/.env'' \<mapsto> b, ''frontend/.env.local'' \<mapsto> f)"
  by (simp add: run_ops_def)

lemma example_setup_succeeds: "snd (configure_mac_env_files example_setup) = None"
  by (simp add: configure_mac_env_files_def example_setup_def backend_env_def frontend_env_def
        with_category_def item_def Let_def)

text \<open>
  Claim C7, as amended. \<^verbatim>\<open>configure_mac_env_files\<close> writes each of the two
  configuration files in place: it opens the target path itself for writing, which
  truncates it, and then writes the whole rendered text, \<open>backend_env_content\<close> and
  \<open>frontend_env_content\<close> of the wizard; these four are all its file operations, so no
  temporary file and no rename are involved. A run that completes leaves exactly the
  rendered texts in the two files. A crash between the open and the write of a file
  leaves that file empty; a crash after the backend file is complete leaves the
  frontend file as it was.
\<close>

theorem env_files_written_in_place:
  assumes "configure_mac_env_files s = (ops, None)"
  shows "\<exists>method backend frontend.
           setup_method s = Some method \<and> backend_env s method = Inr backend \<and>
           frontend_env s = Inr frontend \<and>
           ops = [Open_w ''backend/.env'', Write ''backend/.env'' (backend_env_content s method backend),
                  Open_w ''frontend/.env.local'',
                  Write ''frontend/.env.local'' (frontend_env_content s frontend)] \<and>
           run_ops ops fs =
             fs(''backend/.env'' \<mapsto> backend_env_content s method backend,
                ''frontend/.env.local'' \<mapsto> frontend_env_content s frontend) \<and>
           crash_after 1 ops fs ''backend/.env'' = Some [] \<and>
           crash_after 2 ops fs ''backend/.env'' = Some (backend_env_content s method backend) \<and>
           crash_after 2 ops fs ''frontend/.env.local'' = fs ''frontend/.env.local'' \<and>
           crash_after 3 ops fs ''frontend/.env.local'' = Some []"
proof -
  from configure_ops_shape[OF assms] obtain meth backend frontend where
    m: "setup_method s = Some meth" "backend_env s meth = Inr backend" "frontend_env s = Inr frontend"
    and ops: "ops = [Open_w ''backend/.env'', Write ''backend/.env'' (backend_env_content s meth backend),
                  Open_w ''frontend/.env.local'',
                  Write ''frontend/.env.local'' (frontend_env_content s frontend)]"
    by blast
  have r: "run_ops ops fs =
             fs(''backend/.env'' \<mapsto> backend_env_content s meth backend,
                ''frontend/.env.local'' \<mapsto> frontend_env_content s frontend)"
    unfolding ops by (rule run_two_writes)
  have c1: "crash_after 1 ops fs ''backend/.env'' = Some []"
    unfolding ops by (simp add: crash_after_def run_ops_def)
  have c2: "crash_after 2 ops fs ''backend/.env'' = Some (backend_env_content s meth backend)"
    "crash_after 2 ops fs ''frontend/.env.local'' = fs ''frontend/.env.local''"
    unfolding ops by (simp_all add: crash_after_def run_ops_def numeral_2_eq_2)
  have c3: "crash_after 3 ops fs ''frontend/.env.local'' = Some []"
    unfolding ops by (simp add: crash_after_def run_ops_def numeral_3_eq_3)
  from m ops r c1 c2 c3 show ?thesis by blast
qed

text \<open>The example wizard writes four operations; a crash after the third leaves an empty frontend file.\<close>

theorem env_files_written_in_place_witness:
  "snd (configure_mac_env_files example_setup) = None \<and>
   length (fst (configure_mac_env_files example_setup)) = 4 \<and>
   crash_after 3 (fst (configure_mac_env_files example_setup)) old_files ''frontend/.env.local'' = Some []"
proof -
  have c: "configure_mac_env_files example_setup = (fst (configure_mac_env_files example_setup), None)"
    using example_setup_succeeds by (metis prod.collapse)
  from env_files_written_in_place[OF c, of old_files] example_setup_succeeds show ?thesis by auto
qed

text \<open>
  Claim C7 as stated fails: with an earlier \<^verbatim>\<open>backend/.env\<close> on disk, a crash right
  after the file has been opened leaves it with length zero, not with its earlier
  contents.
\<close>

theorem crash_truncates_backend_env:
  "old_files ''backend/.env'' = Some ''ENV_MODE=local'' \<and>
   crash_after 1 (fst (configure_mac_env_files example_setup)) old_files ''backend/.env'' = Some [] \<and>
   crash_after 1 (fst (configure_mac_env_files example_setup)) old_files ''backend/.env''
     \<noteq> old_files ''backend/.env''"
proof -
  have c: "configure_mac_env_files example_setup = (fst (configure_mac_env_files example_setup), None)"
    using example_setup_succeeds by (metis prod.collapse)
  from configure_ops_shape[OF c] obtain b f where
    ops: "fst (configure_mac_env_files example_setup) =
            [Open_w ''backend/.env'', Write ''backend/.env'' b,
             Open_w ''frontend/.env.local'', Write ''frontend/.env.local'' f]" by blast
  show ?thesis unfolding ops by (simp add: crash_after_def run_ops_def old_files_def)
qed

text \<open>
  Claim C8. The texts of \<^verbatim>\<open>backend/.env\<close> and \<^verbatim>\<open>frontend/.env.local\<close> are
  determined by the collected values (keys, values and their order), the setup method
  and the architecture alone: whatever the files held before, a completed run leaves
  the same two texts, and running it a second time changes nothing.
\<close>

theorem rendering_is_deterministic:
  assumes "configure_mac_env_files s = (ops, None)"
  shows "run_ops ops fs1 ''backend/.env'' = run_ops ops fs2 ''backend/.env'' \<and>
         run_ops ops fs1 ''frontend/.env.local'' = run_ops ops fs2 ''frontend/.env.local'' \<and>
         run_ops ops (run_ops ops fs1) = run_ops ops fs1 \<and>
         (\<exists>method backend frontend.
            setup_method s = Some method \<and> backend_env s method = Inr backend \<and>
            frontend_env s = Inr frontend \<and>
            run_ops ops fs1 ''backend/.env'' = Some (backend_env_content s method backend) \<and>
            run_ops ops fs1 ''frontend/.env.local'' = Some (frontend_env_content s frontend))"
proof -
  from configure_ops_shape[OF assms] obtain meth backend frontend where
    m: "setup_method s = Some meth" "backend_env s meth = Inr backend" "frontend_env s = Inr frontend"
    and ops: "ops = [Open_w ''backend/.env'', Write ''backend/.env'' (backend_env_content s meth backend),
                  Open_w ''frontend/.env.local'', Write ''frontend/.env.local'' (frontend_env_content s frontend)]"
    by blast
  have r: "\<And>fs. run_ops ops fs =
      fs(''backend/.env'' \<mapsto> backend_env_content s meth backend,
         ''frontend/.env.local'' \<mapsto> frontend_env_content s frontend)"
    unfolding ops by (rule run_two_writes)
  have a: "run_ops ops fs1 ''backend/.env'' = Some (backend_env_content s meth backend)"
    "run_ops ops fs2 ''backend/.env'' = Some (backend_env_content s meth backend)"
    "run_ops ops fs1 ''frontend/.env.local'' = Some (frontend_env_content s frontend)"
    "run_ops ops fs2 ''frontend/.env.local'' = Some (frontend_env_content s frontend)"
    by (simp_all add: r)
  have i: "run_ops ops (run_ops ops fs1) = run_ops ops fs1"
    by (simp add: r)
  from m a i show ?thesis by auto
qed

text \<open>The example wizard writes the same backend file onto an empty disk and over an earlier file.\<close>

theorem rendering_is_deterministic_witness:
  "snd (configure_mac_env_files example_setup) = None \<and>
   run_ops (fst (configure_mac_env_files example_setup)) Map.empty ''backend/.env'' =
   run_ops (fst (configure_mac_env_files example_setup)) old_files ''backend/.env''"
proof -
  have c: "configure_mac_env_files example_setup = (fst (configure_mac_env_files example_setup), None)"
    using example_setup_succeeds by (metis prod.collapse)
  from rendering_is_deterministic[OF c, of Map.empty old_files] example_setup_succeeds
  show ?thesis by blast
qed

text \<open>The frontend file of the example wizard, line by line.\<close>

lemma example_frontend_file:
  "run_ops (fst (configure_mac_env_files example_setup)) old_files ''frontend/.env.local'' =
     Some (''# Generated by Suna Mac setup script'' @ nl @ ''# Architecture: Apple Silicon'' @ nl @ nl @
           ''NEXT_PUBLIC_SUPABASE_URL=https://abc.supabase.co'' @ nl @
           ''NEXT_PUBLIC_SUPABASE_ANON_KEY=anon'' @ nl @
           ''NEXT_PUBLIC_BACKEND_URL=http://localhost:8000/api'' @ nl @
           ''NEXT_PUBLIC_URL=http://localhost:3000'' @ nl @
           ''NEXT_PUBLIC_ENV_MODE=LOCAL'' @ nl @
           ''NEXT_PUBLIC_MAC_ARCHITECTURE=arm64'' @ nl)"
  by (simp add: configure_mac_env_files_def example_setup_def backend_env_def frontend_env_def
        with_category_def item_def Let_def write_file_def run_ops_def frontend_env_content_def
        env_lines_def dict_literal_def architecture_name_def mac_architecture_def nl_def)


end
